theory Spec2Isabelle
  imports Complex_Main "HOL-Library.Word" "HOL-Library.Signed_Division" "HOL-Library.Monad_Syntax"
begin

unbundle bit_operations_syntax

section \<open>The forwarder of pkg/sfu/forwarder.go\<close>

text \<open>
  Conventions of the embedding.
  \<^item> Layer indices (Go \<open>int32\<close>) and bitrates (Go \<open>int64\<close>, bits per second) are \<open>int\<close>:
    the allocation code compares them and does small sums, differences and one product, and
    the values a feed produces stay far inside the machine ranges, so no wrap-around is
    written out there.
  \<^item> RTP timestamps and sequence numbers are machine words: \<open>32 word\<close> and \<open>64 word\<close>;
    their arithmetic wraps and \<open>int64(x)\<close> is \<open>sint x\<close>.
  \<^item> An index into the bitrate matrix outside its bounds panics in Go: every function
    that reads the matrix returns an \<open>option\<close>, \<open>None\<close> being the panic. A nil
    \<open>f.provisional\<close> dereference is the same \<open>None\<close>.
  \<^item> The lock, the logger and the \<open>String\<close>/\<open>MarshalLogObject\<close> methods have no
    effect on the results and are left out.
\<close>

subsection \<open>Layers and bitrates (package buffer)\<close>

record VideoLayer =
  Spatial :: int
  Temporal :: int

definition InvalidLayerSpatial :: int where
  "InvalidLayerSpatial = -1"

definition InvalidLayerTemporal :: int where
  "InvalidLayerTemporal = -1"

definition InvalidLayer :: VideoLayer where
  "InvalidLayer = \<lparr>Spatial = InvalidLayerSpatial, Temporal = InvalidLayerTemporal\<rparr>"


definition DefaultMaxLayerTemporal :: int where
  "DefaultMaxLayerTemporal = 3"

text \<open>
  Modelled from the spec: \<open>VideoLayer.IsValid\<close> is declared outside forwarder.go;
  "\<open>IsValid\<close> requires both \<open>\<ge> 0\<close>".
\<close>

definition IsValid :: "VideoLayer \<Rightarrow> bool" where
  "IsValid v = (0 \<le> Spatial v \<and> 0 \<le> Temporal v)"

text \<open>
  Modelled from the spec: \<open>VideoLayer.GreaterThan\<close> is declared outside forwarder.go;
  "Ordering is lexicographic by (spatial, temporal)", each comparison strict.
\<close>

definition GreaterThan :: "VideoLayer \<Rightarrow> VideoLayer \<Rightarrow> bool" where
  "GreaterThan v v2 =
     (Spatial v > Spatial v2 \<or> (Spatial v = Spatial v2 \<and> Temporal v > Temporal v2))"

text \<open>
  \<open>Bitrates\<close> is a two-dimensional array of \<open>int64\<close>, rows indexed by the spatial layer.
  \<open>brs_at\<close> is the Go expression \<open>brs[s][t]\<close> with its bounds check.
\<close>

type_synonym Bitrates = "int list list"

definition brs_at :: "Bitrates \<Rightarrow> int \<Rightarrow> int \<Rightarrow> int option" where
  "brs_at brs s t =
     (if 0 \<le> s \<and> s < int (length brs) then
        (if 0 \<le> t \<and> t < int (length (brs ! nat s)) then Some (brs ! nat s ! nat t) else None)
      else None)"


subsection \<open>Allocation records\<close>

datatype VideoPauseReason =
    VideoPauseReasonNone
  | VideoPauseReasonMuted
  | VideoPauseReasonPubMuted
  | VideoPauseReasonFeedDry
  | VideoPauseReasonBandwidth

text \<open>
  \<open>DistanceToDesired\<close> is a \<open>float64\<close> in Go; the record keeps the exact quotient that
  the code rounds. Nothing in the forwarder branches on it.
\<close>

record VideoAllocation =
  PauseReason :: VideoPauseReason
  IsDeficient :: bool
  BandwidthRequested :: int
  BandwidthDelta :: int
  BandwidthNeeded :: int
  Bitrates :: Bitrates
  TargetLayer :: VideoLayer
  RequestLayerSpatial :: int
  MaxLayer :: VideoLayer
  DistanceToDesired :: rat

text \<open>The zero value \<open>VideoAllocation{}\<close> of Go.\<close>

definition VideoAllocationZero :: VideoAllocation where
  "VideoAllocationZero =
     \<lparr>PauseReason = VideoPauseReasonNone, IsDeficient = False, BandwidthRequested = 0,
      BandwidthDelta = 0, BandwidthNeeded = 0, Bitrates = [],
      TargetLayer = \<lparr>Spatial = 0, Temporal = 0\<rparr>, RequestLayerSpatial = 0,
      MaxLayer = \<lparr>Spatial = 0, Temporal = 0\<rparr>, DistanceToDesired = 0\<rparr>"

definition VideoAllocationDefault :: VideoAllocation where
  "VideoAllocationDefault =
     VideoAllocationZero
       \<lparr>PauseReason := VideoPauseReasonFeedDry, TargetLayer := InvalidLayer,
        RequestLayerSpatial := InvalidLayerSpatial, MaxLayer := InvalidLayer\<rparr>"

record VideoAllocationProvisional =
  p_muted :: bool
  p_pubMuted :: bool
  p_maxSeenLayer :: VideoLayer
  p_availableLayers :: "int list"
  p_bitrates :: Bitrates
  p_maxLayer :: VideoLayer
  p_currentLayer :: VideoLayer
  p_allocatedLayer :: VideoLayer


subsection \<open>Packets, translation parameters, errors\<close>

record ExtPacket =
  SSRC :: "32 word"
  SequenceNumber :: "16 word"
  Timestamp :: "32 word"
  ExtSequenceNumber :: "64 word"
  ExtTimestamp :: "64 word"

datatype SequenceNumberOrdering =
    SequenceNumberOrderingContiguous
  | SequenceNumberOrderingOutOfOrder
  | SequenceNumberOrderingGap
  | SequenceNumberOrderingDuplicate

text \<open>
  Modelled from the spec: \<open>TranslationParamsRTP\<close> and \<open>RTPMungerState\<close> belong to the RTP
  munger, which is outside forwarder.go. The translated packet carries its ordering and
  the outgoing extended sequence number and timestamp; the munger state exposes
  \<open>extLastSN\<close> and \<open>extLastTS\<close>.
\<close>

record TranslationParamsRTP =
  snOrdering :: SequenceNumberOrdering
  extSequenceNumber :: "64 word"
  extTimestamp :: "64 word"

record RTPMungerState =
  ExtLastSN :: "64 word"
  ExtLastTS :: "64 word"

record TranslationParams =
  shouldDrop :: bool
  isResuming :: bool
  isSwitching :: bool
  rtp :: TranslationParamsRTP
  ddBytes :: "8 word list"
  marker :: bool

definition TranslationParamsZero :: TranslationParams where
  "TranslationParamsZero =
     \<lparr>shouldDrop = False, isResuming = False, isSwitching = False,
      rtp = \<lparr>snOrdering = SequenceNumberOrderingContiguous, extSequenceNumber = 0,
             extTimestamp = 0\<rparr>,
      ddBytes = [], marker = False\<rparr>"

text \<open>
  Go errors as values. \<open>ErrSwitchPointTooFarBehind\<close> is
  \<open>errors.New("switch point too far behind")\<close>; \<open>ErrCallback\<close> is whatever error a
  timestamp callback or the munger returns beyond the named ones.
\<close>

datatype error =
    ErrUnknownKind
  | ErrPaddingOnlyPacket
  | ErrDuplicatePacket
  | ErrOutOfOrderSequenceNumberCacheMiss
  | ErrSwitchPointTooFarBehind
  | ErrCallback nat

subsection \<open>The forwarder state\<close>

datatype RTPCodecType = RTPCodecTypeUnknown | RTPCodecTypeAudio | RTPCodecTypeVideo

text \<open>
  Modelled from the spec: the video layer selector is an interface implemented outside
  forwarder.go with accessors \<open>GetMax/Current/Target/MaxSeen/RequestSpatial\<close>, the
  matching setters and \<open>IsOvershootOkay\<close>. The accessors are the fields of this record;
  \<open>variant\<close> is whatever further state a selector variant keeps. \<open>Select\<close> and
  \<open>Rollback\<close> depend on the variant and are parameters of the translation pipeline.
\<close>

record 's VideoLayerSelector =
  maxLayer :: VideoLayer
  maxSeenLayer :: VideoLayer
  currentLayer :: VideoLayer
  targetLayer :: VideoLayer
  requestSpatial :: int
  overshootOkay :: bool
  variant :: 's

text \<open>
  \<open>preStartTime\<close> is \<open>None\<close> for the zero \<open>time.Time\<close>. \<open>resumeBehindThreshold\<close> is a
  \<open>float64\<close> that only ever holds \<open>0\<close> or \<open>ResumeBehindThresholdSeconds\<close>.
  The RTP munger \<open>'m\<close> and the codec munger \<open>'c\<close> are opaque: their operations are
  parameters of the functions that call them.
\<close>

record ('m, 'c, 's) Forwarder =
  codecMimeType :: string
  codecClockRate :: "32 word"
  kind :: RTPCodecType
  getReferenceLayerRTPTimestamp :: "(32 word \<Rightarrow> int \<Rightarrow> int \<Rightarrow> error + 32 word) option"
  getExpectedRTPTimestamp :: "(int \<Rightarrow> error + 64 word) option"
  muted :: bool
  pubMuted :: bool
  resumeBehindThreshold :: rat
  started :: bool
  preStartTime :: "int option"
  extFirstTS :: "64 word"
  lastSSRC :: "32 word"
  referenceLayerSpatial :: int
  refTSOffset :: "64 word"
  provisional :: "VideoAllocationProvisional option"
  lastAllocation :: VideoAllocation
  rtpMunger :: 'm
  vls :: "'s VideoLayerSelector"
  codecMunger :: 'c

definition ResumeBehindThresholdSeconds :: rat where
  "ResumeBehindThresholdSeconds = 2 / 10"

definition ResumeBehindHighTresholdSeconds :: rat where
  "ResumeBehindHighTresholdSeconds = 2"

definition LayerSwitchBehindThresholdSeconds :: rat where
  "LayerSwitchBehindThresholdSeconds = 5 / 100"

definition SwitchAheadThresholdSeconds :: rat where
  "SwitchAheadThresholdSeconds = 25 / 1000"


definition FlagPauseOnDowngrade :: bool where
  "FlagPauseOnDowngrade = True"

subsection \<open>Mute and resync\<close>

definition resyncLocked :: "('m, 'c, 's) Forwarder \<Rightarrow> ('m, 'c, 's) Forwarder" where
  "resyncLocked f =
     (let f1 = f\<lparr>vls := (vls f)\<lparr>currentLayer := InvalidLayer\<rparr>, lastSSRC := 0\<rparr>
      in if pubMuted f1 then f1\<lparr>resumeBehindThreshold := ResumeBehindThresholdSeconds\<rparr>
         else f1)"

text \<open>\<open>Mute\<close> returns whether the flag changed, and the forwarder after the call.\<close>

definition Mute :: "('m, 'c, 's) Forwarder \<Rightarrow> bool \<Rightarrow> bool \<Rightarrow> bool \<times> ('m, 'c, 's) Forwarder" where
  "Mute f m isSubscribeMutable =
     (if muted f = m then (False, f)
      else if m \<and> \<not> isSubscribeMutable then (False, f)
      else
        (let f1 = f\<lparr>muted := m\<rparr>
         in if m then (True, resyncLocked f1) else (True, f1)))"

definition PubMute :: "('m, 'c, 's) Forwarder \<Rightarrow> bool \<Rightarrow> bool \<times> ('m, 'c, 's) Forwarder" where
  "PubMute f pm =
     (if pubMuted f = pm then (False, f)
      else
        (let f1 = f\<lparr>pubMuted := pm\<rparr>
         in if pm then (True, resyncLocked f1) else (True, f1)))"

subsection \<open>Bandwidth helpers\<close>

text \<open>
  \<open>getOptimalBandwidthNeeded\<close>: the two nested loops run from \<open>maxLayer\<close> down to 0 and
  return the first non-zero cell. The inner loop answers \<open>Some None\<close> when its row has no
  non-zero cell.
\<close>

function optimalInner :: "Bitrates \<Rightarrow> int \<Rightarrow> int \<Rightarrow> int option option" where
  "optimalInner brs i j =
     (if 0 \<le> j then
        do {
          b \<leftarrow> brs_at brs i j;
          if b = 0 then optimalInner brs i (j - 1) else Some (Some b)
        }
      else Some None)"
  by pat_completeness auto
termination
  by (relation "measure (\<lambda>(brs, i, j). nat (j + 1))") auto

declare optimalInner.simps [simp del]

function optimalOuter :: "Bitrates \<Rightarrow> int \<Rightarrow> int \<Rightarrow> int option" where
  "optimalOuter brs i maxT =
     (if 0 \<le> i then
        do {
          r \<leftarrow> optimalInner brs i maxT;
          case r of Some b \<Rightarrow> Some b | None \<Rightarrow> optimalOuter brs (i - 1) maxT
        }
      else Some 0)"
  by pat_completeness auto
termination
  by (relation "measure (\<lambda>(brs, i, maxT). nat (i + 1))") auto

declare optimalOuter.simps [simp del]

definition getOptimalBandwidthNeeded ::
  "bool \<Rightarrow> bool \<Rightarrow> int \<Rightarrow> Bitrates \<Rightarrow> VideoLayer \<Rightarrow> int option" where
  "getOptimalBandwidthNeeded m pm maxPublishedLayer brs maxL =
     (if m \<or> pm \<or> maxPublishedLayer = InvalidLayerSpatial then Some 0
      else optimalOuter brs (Spatial maxL) (Temporal maxL))"

definition getBandwidthNeeded :: "Bitrates \<Rightarrow> VideoLayer \<Rightarrow> int \<Rightarrow> int option" where
  "getBandwidthNeeded brs layer fallback =
     (if IsValid layer then
        do {
          b \<leftarrow> brs_at brs (Spatial layer) (Temporal layer);
          Some (if b > 0 then b else fallback)
        }
      else Some fallback)"

text \<open>
  \<open>getDistanceToDesired\<close>. \<open>lenTemporal\<close> is \<open>len(brs[0])\<close>, a constant of the array
  type in Go.
\<close>

definition lenTemporal :: "Bitrates \<Rightarrow> int" where
  "lenTemporal brs = (case brs of [] \<Rightarrow> 0 | r # _ \<Rightarrow> int (length r))"

function rowHasBitrate :: "Bitrates \<Rightarrow> int \<Rightarrow> int \<Rightarrow> int option option" where
  "rowHasBitrate brs s t =
     (if 0 \<le> t then
        do {
          b \<leftarrow> brs_at brs s t;
          if b \<noteq> 0 then Some (Some t) else rowHasBitrate brs s (t - 1)
        }
      else Some None)"
  by pat_completeness auto
termination
  by (relation "measure (\<lambda>(brs, s, t). nat (t + 1))") auto

declare rowHasBitrate.simps [simp del]

function maxAvailableSpatialLoop :: "Bitrates \<Rightarrow> int \<Rightarrow> int option" where
  "maxAvailableSpatialLoop brs s =
     (if 0 \<le> s then
        do {
          r \<leftarrow> rowHasBitrate brs s (lenTemporal brs - 1);
          case r of Some t \<Rightarrow> Some s | None \<Rightarrow> maxAvailableSpatialLoop brs (s - 1)
        }
      else Some InvalidLayerSpatial)"
  by pat_completeness auto
termination
  by (relation "measure (\<lambda>(brs, s). nat (s + 1))") auto

declare maxAvailableSpatialLoop.simps [simp del]

fun availableLoop :: "int list \<Rightarrow> int \<Rightarrow> int \<times> int \<Rightarrow> int \<times> int" where
  "availableLoop [] seenT (sp, tp) = (sp, tp)"
| "availableLoop (layer # ls) seenT (sp, tp) =
     (if layer > sp then availableLoop ls seenT (layer, seenT)
      else availableLoop ls seenT (sp, tp))"

definition getDistanceToDesired ::
  "bool \<Rightarrow> bool \<Rightarrow> VideoLayer \<Rightarrow> int list \<Rightarrow> Bitrates \<Rightarrow> VideoLayer \<Rightarrow> VideoLayer \<Rightarrow> rat option" where
  "getDistanceToDesired m pm maxSeen availableLayers brs target maxL =
     (if m \<or> pm \<or> \<not> IsValid maxSeen \<or> \<not> IsValid maxL then Some 0
      else
        do {
          sp0 \<leftarrow> maxAvailableSpatialLoop brs (int (length brs) - 1);
          let (maxAvailableSpatial, tp0) =
                availableLoop availableLayers (Temporal maxSeen) (sp0, InvalidLayerTemporal);
          let adj1 = (if maxAvailableSpatial < Spatial maxL then maxAvailableSpatial
                      else Spatial maxL);
          let adjS = (if Spatial maxSeen < adj1 then Spatial maxSeen else adj1);
          maxAvailableTemporal \<leftarrow>
            (if adjS \<noteq> InvalidLayerSpatial then
               do {
                 r \<leftarrow> rowHasBitrate brs adjS (lenTemporal brs - 1);
                 Some (case r of Some t \<Rightarrow> t | None \<Rightarrow> tp0)
               }
             else Some tp0);
          let adjT1 = (if maxAvailableTemporal < Temporal maxL then maxAvailableTemporal
                       else Temporal maxL);
          let adjT = (if Temporal maxSeen < adjT1 then Temporal maxSeen else adjT1);
          let adjustedMaxLayer =
                (if \<not> IsValid \<lparr>Spatial = adjS, Temporal = adjT\<rparr>
                 then \<lparr>Spatial = 0, Temporal = 0\<rparr>
                 else \<lparr>Spatial = adjS, Temporal = adjT\<rparr>);
          let adjustedTargetLayer =
                (if \<not> IsValid target then \<lparr>Spatial = 0, Temporal = 0\<rparr> else target);
          let distance0 =
                (Spatial adjustedMaxLayer - Spatial adjustedTargetLayer) * (Temporal maxSeen + 1)
                + (Temporal adjustedMaxLayer - Temporal adjustedTargetLayer);
          let distance = (if \<not> IsValid target then distance0 + (Temporal maxSeen + 1)
                          else distance0);
          Some (rat_of_int distance / rat_of_int (Temporal maxSeen + 1))
        })"

subsection \<open>Recording an allocation\<close>

text \<open>
  \<open>strings.ToLower\<close> on the MIME type, which is ASCII: each upper-case letter goes to its lower-case letter.
\<close>

definition toLowerChar :: "char \<Rightarrow> char" where
  "toLowerChar c =
     (case map_of (zip ''ABCDEFGHIJKLMNOPQRSTUVWXYZ'' ''abcdefghijklmnopqrstuvwxyz'') c of
        Some l \<Rightarrow> l
      | None \<Rightarrow> c)"

definition toLower :: "string \<Rightarrow> string" where
  "toLower s = map toLowerChar s"

definition setTargetLayer ::
  "('m, 'c, 's) Forwarder \<Rightarrow> VideoLayer \<Rightarrow> int \<Rightarrow> ('m, 'c, 's) Forwarder" where
  "setTargetLayer f target requestLayerSpatial =
     (let v1 = (vls f)\<lparr>targetLayer := target\<rparr>
      in if IsValid target then f\<lparr>vls := v1\<lparr>requestSpatial := requestLayerSpatial\<rparr>\<rparr>
         else f\<lparr>vls := v1\<lparr>requestSpatial := InvalidLayerSpatial\<rparr>\<rparr>)"

definition updateAllocation ::
  "('m, 'c, 's) Forwarder \<Rightarrow> VideoAllocation \<Rightarrow> VideoAllocation \<times> ('m, 'c, 's) Forwarder" where
  "updateAllocation f alloc =
     (let alloc1 =
            (if IsValid (TargetLayer alloc) \<and> toLower (codecMimeType f) = ''video/h264''
             then alloc\<lparr>TargetLayer := (TargetLayer alloc)\<lparr>Temporal := 0\<rparr>\<rparr>
             else alloc);
          f1 = f\<lparr>lastAllocation := alloc1\<rparr>;
          f2 = setTargetLayer f1 (TargetLayer (lastAllocation f1))
                 (RequestLayerSpatial (lastAllocation f1));
          f3 = (if \<not> IsValid (targetLayer (vls f2)) then resyncLocked f2 else f2)
      in (lastAllocation f3, f3))"

subsection \<open>AllocateOptimal\<close>

definition getMaxTemporal :: "VideoLayer \<Rightarrow> VideoLayer \<Rightarrow> int" where
  "getMaxTemporal maxL maxSeen =
     (if Temporal maxSeen \<noteq> InvalidLayerTemporal \<and> Temporal maxSeen < Temporal maxL
      then Temporal maxSeen else Temporal maxL)"

definition opportunisticAlloc :: "bool \<Rightarrow> bool \<Rightarrow> VideoLayer \<Rightarrow> VideoLayer \<Rightarrow> VideoLayer" where
  "opportunisticAlloc allowOvershoot okay maxL maxSeen =
     (let maxSpatial =
            (if allowOvershoot \<and> okay \<and> Spatial maxSeen > Spatial maxL then Spatial maxSeen
             else Spatial maxL)
      in \<lparr>Spatial = min (Spatial maxSeen) maxSpatial, Temporal = getMaxTemporal maxL maxSeen\<rparr>)"

text \<open>
  The loop over \<open>availableLayers\<close>; the pair is
  \<open>(requestLayerSpatial, highestAvailableLayer)\<close>.
\<close>

fun requestLoop :: "int list \<Rightarrow> int \<Rightarrow> int \<times> int \<Rightarrow> int \<times> int" where
  "requestLoop [] limit (req, highest) = (req, highest)"
| "requestLoop (al # als) limit (req, highest) =
     requestLoop als limit
       (if al > req \<and> al \<le> limit then al else req, if al > highest then al else highest)"

definition optimalDefaultCase ::
  "('m, 'c, 's) Forwarder \<Rightarrow> int list \<Rightarrow> bool \<Rightarrow> VideoAllocation \<Rightarrow> VideoAllocation" where
  "optimalDefaultCase f availableLayers allowOvershoot alloc =
     (let maxL = maxLayer (vls f);
          maxSeen = maxSeenLayer (vls f);
          current = currentLayer (vls f);
          reqSp = requestSpatial (vls f);
          maxLayerSpatialLimit = min (Spatial maxL) (Spatial maxSeen);
          (req0, highestAvailableLayer) =
             requestLoop availableLayers maxLayerSpatialLimit
               (InvalidLayerSpatial, InvalidLayerSpatial);
          requestLayerSpatial =
            (if req0 = InvalidLayerSpatial \<and> highestAvailableLayer \<noteq> InvalidLayerSpatial
                \<and> allowOvershoot \<and> overshootOkay (vls f)
             then highestAvailableLayer else req0)
      in if IsValid current then
           (let a1 =
                  (if (requestLayerSpatial = reqSp \<and> Spatial current = reqSp)
                      \<or> requestLayerSpatial = InvalidLayerSpatial
                   then alloc\<lparr>TargetLayer :=
                          \<lparr>Spatial = Spatial current, Temporal = getMaxTemporal maxL maxSeen\<rparr>\<rparr>
                   else alloc\<lparr>TargetLayer :=
                          \<lparr>Spatial = requestLayerSpatial,
                           Temporal = getMaxTemporal maxL maxSeen\<rparr>\<rparr>)
            in a1\<lparr>RequestLayerSpatial := Spatial (TargetLayer a1)\<rparr>)
         else
           (let a1 = alloc\<lparr>TargetLayer :=
                       opportunisticAlloc allowOvershoot (overshootOkay (vls f)) maxL maxSeen\<rparr>
            in if requestLayerSpatial = InvalidLayerSpatial
               then a1\<lparr>RequestLayerSpatial := maxLayerSpatialLimit\<rparr>
               else a1\<lparr>RequestLayerSpatial := requestLayerSpatial\<rparr>))"

text \<open>
  The allocation as it stands after the \<open>switch\<close> and the two checks of the target that
  follow it, given \<open>optimalBandwidthNeeded\<close>.
\<close>

definition optimalTarget ::
  "('m, 'c, 's) Forwarder \<Rightarrow> int list \<Rightarrow> Bitrates \<Rightarrow> bool \<Rightarrow> int \<Rightarrow> VideoAllocation" where
  "optimalTarget f availableLayers brs allowOvershoot optimalBandwidthNeeded =
     (let maxL = maxLayer (vls f);
          maxSeen = maxSeenLayer (vls f);
          alloc0 = VideoAllocationZero
            \<lparr>PauseReason := VideoPauseReasonNone, Bitrates := brs,
             TargetLayer := InvalidLayer, RequestLayerSpatial := requestSpatial (vls f),
             MaxLayer := maxL\<rparr>;
          alloc1 = (if optimalBandwidthNeeded = 0
                    then alloc0\<lparr>PauseReason := VideoPauseReasonFeedDry\<rparr> else alloc0)
                   \<lparr>BandwidthNeeded := optimalBandwidthNeeded\<rparr>;
          alloc2 =
            (if \<not> IsValid maxL \<or> Spatial maxSeen = InvalidLayerSpatial then alloc1
             else if muted f then alloc1\<lparr>PauseReason := VideoPauseReasonMuted\<rparr>
             else if pubMuted f then alloc1\<lparr>PauseReason := VideoPauseReasonPubMuted\<rparr>
             else optimalDefaultCase f availableLayers allowOvershoot alloc1);
          alloc3 =
            (if \<not> IsValid (TargetLayer alloc2)
             then alloc2\<lparr>TargetLayer := InvalidLayer,
                         RequestLayerSpatial := InvalidLayerSpatial\<rparr>
             else alloc2)
      in if IsValid (TargetLayer alloc3)
         then alloc3\<lparr>BandwidthRequested := optimalBandwidthNeeded\<rparr> else alloc3)"

definition AllocateOptimal ::
  "('m, 'c, 's) Forwarder \<Rightarrow> int list \<Rightarrow> Bitrates \<Rightarrow> bool
     \<Rightarrow> (VideoAllocation \<times> ('m, 'c, 's) Forwarder) option" where
  "AllocateOptimal f availableLayers brs allowOvershoot =
     (if kind f = RTPCodecTypeAudio then Some (lastAllocation f, f)
      else
        do {
          optimalBandwidthNeeded \<leftarrow>
            getOptimalBandwidthNeeded (muted f) (pubMuted f) (Spatial (maxSeenLayer (vls f)))
              brs (maxLayer (vls f));
          let alloc = optimalTarget f availableLayers brs allowOvershoot optimalBandwidthNeeded;
          bn \<leftarrow> getBandwidthNeeded brs (targetLayer (vls f))
                  (BandwidthRequested (lastAllocation f));
          d \<leftarrow> getDistanceToDesired (muted f) (pubMuted f) (maxSeenLayer (vls f))
                 availableLayers brs (TargetLayer alloc) (maxLayer (vls f));
          Some (updateAllocation f
                  (alloc\<lparr>BandwidthDelta := BandwidthRequested alloc - bn,
                         DistanceToDesired := d\<rparr>))
        })"

subsection \<open>Cooperative (provisional) allocation\<close>



text \<open>
  The search for \<open>maximalLayer\<close> in \<open>ProvisionalAllocateGetCooperativeTransition\<close>: from
  \<open>maxLayer\<close> downwards, the first cell with a non-zero bitrate and that bitrate.
\<close>

function maximalInner :: "Bitrates \<Rightarrow> int \<Rightarrow> int \<Rightarrow> (VideoLayer \<times> int) option option" where
  "maximalInner brs s t =
     (if 0 \<le> t then
        do {
          b \<leftarrow> brs_at brs s t;
          if b \<noteq> 0 then Some (Some (\<lparr>Spatial = s, Temporal = t\<rparr>, b))
          else maximalInner brs s (t - 1)
        }
      else Some None)"
  by pat_completeness auto
termination
  by (relation "measure (\<lambda>(brs, s, t). nat (t + 1))") auto

declare maximalInner.simps [simp del]

function maximalOuter :: "Bitrates \<Rightarrow> int \<Rightarrow> int \<Rightarrow> (VideoLayer \<times> int) option" where
  "maximalOuter brs s maxT =
     (if 0 \<le> s then
        do {
          r \<leftarrow> maximalInner brs s maxT;
          case r of Some lb \<Rightarrow> Some lb | None \<Rightarrow> maximalOuter brs (s - 1) maxT
        }
      else Some (InvalidLayer, 0))"
  by pat_completeness auto
termination
  by (relation "measure (\<lambda>(brs, s, maxT). nat (s + 1))") auto

declare maximalOuter.simps [simp del]


















subsection \<open>AllocateNextHigher\<close>

text \<open>
  The body of the closure \<open>doAllocation\<close> once a cell \<open>(s, t)\<close> with non-zero bitrate
  \<open>b\<close> is reached: both branches return from the closure with \<open>done = true\<close>.
  The triple is \<open>(done, allocation, boosted)\<close>.
\<close>

definition nextHigherAt ::
  "('m, 'c, 's) Forwarder \<Rightarrow> int \<Rightarrow> int list \<Rightarrow> Bitrates \<Rightarrow> bool \<Rightarrow> int \<Rightarrow> int
     \<Rightarrow> int \<Rightarrow> int \<Rightarrow> int
     \<Rightarrow> ((bool \<times> VideoAllocation \<times> bool) \<times> ('m, 'c, 's) Forwarder) option" where
  "nextHigherAt f availableChannelCapacity availableLayers brs allowOvershoot
       alreadyAllocated optimalBandwidthNeeded s t bandwidthRequested =
     (if (\<not> allowOvershoot \<or> \<not> overshootOkay (vls f))
         \<and> bandwidthRequested - alreadyAllocated > availableChannelCapacity
      then Some ((True, lastAllocation f, False), f)
      else
        do {
          let newTargetLayer = \<lparr>Spatial = s, Temporal = t\<rparr>;
          d \<leftarrow> getDistanceToDesired (muted f) (pubMuted f) (maxSeenLayer (vls f))
                 availableLayers brs newTargetLayer (maxLayer (vls f));
          let alloc = VideoAllocationZero
                \<lparr>IsDeficient := True, BandwidthRequested := bandwidthRequested,
                 BandwidthDelta := bandwidthRequested - alreadyAllocated,
                 BandwidthNeeded := optimalBandwidthNeeded, Bitrates := brs,
                 TargetLayer := newTargetLayer, RequestLayerSpatial := Spatial newTargetLayer,
                 MaxLayer := maxLayer (vls f), DistanceToDesired := d\<rparr>;
          let alloc1 =
                (if GreaterThan newTargetLayer (maxLayer (vls f))
                    \<or> bandwidthRequested \<ge> optimalBandwidthNeeded
                 then alloc\<lparr>IsDeficient := False\<rparr> else alloc);
          let (a, f1) = updateAllocation f alloc1;
          Some ((True, a, True), f1)
        })"

function doAllocationInner ::
  "('m, 'c, 's) Forwarder \<Rightarrow> int \<Rightarrow> int list \<Rightarrow> Bitrates \<Rightarrow> bool \<Rightarrow> int \<Rightarrow> int
     \<Rightarrow> int \<Rightarrow> int \<Rightarrow> int
     \<Rightarrow> ((bool \<times> VideoAllocation \<times> bool) \<times> ('m, 'c, 's) Forwarder) option option" where
  "doAllocationInner f cap als brs ovs already opt s t maxT =
     (if t \<le> maxT then
        do {
          bandwidthRequested \<leftarrow> brs_at brs s t;
          if bandwidthRequested = 0
          then doAllocationInner f cap als brs ovs already opt s (t + 1) maxT
          else
            do {
              r \<leftarrow> nextHigherAt f cap als brs ovs already opt s t bandwidthRequested;
              Some (Some r)
            }
        }
      else Some None)"
  by pat_completeness auto
termination
  by (relation "measure (\<lambda>(f, cap, als, brs, ovs, already, opt, s, t, maxT).
                   nat (maxT - t + 1))") auto

declare doAllocationInner.simps [simp del]

function doAllocation ::
  "('m, 'c, 's) Forwarder \<Rightarrow> int \<Rightarrow> int list \<Rightarrow> Bitrates \<Rightarrow> bool \<Rightarrow> int \<Rightarrow> int
     \<Rightarrow> int \<Rightarrow> int \<Rightarrow> int \<Rightarrow> int
     \<Rightarrow> ((bool \<times> VideoAllocation \<times> bool) \<times> ('m, 'c, 's) Forwarder) option" where
  "doAllocation f cap als brs ovs already opt s maxS minT maxT =
     (if s \<le> maxS then
        do {
          r \<leftarrow> doAllocationInner f cap als brs ovs already opt s minT maxT;
          case r of
            Some res \<Rightarrow> Some res
          | None \<Rightarrow> doAllocation f cap als brs ovs already opt (s + 1) maxS minT maxT
        }
      else Some ((False, VideoAllocationZero, False), f))"
  by pat_completeness auto
termination
  by (relation "measure (\<lambda>(f, cap, als, brs, ovs, already, opt, s, maxS, minT, maxT).
                   nat (maxS - s + 1))") auto

declare doAllocation.simps [simp del]



subsection \<open>Collaborators of the translation pipeline\<close>

text \<open>
  The RTP munger, the codec munger and the variant part of the selector are implemented
  outside forwarder.go. Their operations are taken as parameters: each maps the
  collaborator's state to its new state (and a result).
\<close>

record ('m, 'c) Mungers =
  GetLast :: "'m \<Rightarrow> RTPMungerState"
  SetLastSnTs :: "ExtPacket \<Rightarrow> 'm \<Rightarrow> 'm"
  UpdateSnTsOffsets :: "ExtPacket \<Rightarrow> 64 word \<Rightarrow> 64 word \<Rightarrow> 'm \<Rightarrow> 'm"
  UpdateAndGetSnTs :: "ExtPacket \<Rightarrow> bool \<Rightarrow> 'm \<Rightarrow> (error + TranslationParamsRTP) \<times> 'm"
  PacketDropped :: "ExtPacket \<Rightarrow> 'm \<Rightarrow> 'm"
  CodecSetLast :: "ExtPacket \<Rightarrow> 'c \<Rightarrow> 'c"
  CodecUpdateOffsets :: "ExtPacket \<Rightarrow> 'c \<Rightarrow> 'c"

record VideoLayerSelectorResult =
  IsSelected :: bool
  IsRelevant :: bool
  IsResuming :: bool
  IsSwitching :: bool
  RTPMarker :: bool
  DependencyDescriptorExtension :: "8 word list"

record 's SelectorOps =
  Select :: "ExtPacket \<Rightarrow> int \<Rightarrow> 's VideoLayerSelector
               \<Rightarrow> VideoLayerSelectorResult \<times> 's VideoLayerSelector"
  Rollback :: "'s VideoLayerSelector \<Rightarrow> 's VideoLayerSelector"

text \<open>
  The readings of the clock during one source switch: \<open>time.Now()\<close> and
  \<open>time.Since(f.preStartTime).Nanoseconds()\<close>.
\<close>

record Clock =
  switchingAt :: int
  timeSinceFirst :: "64 word"

subsection \<open>Seconds as float64\<close>

text \<open>
  \<open>diffSeconds\<close> is \<open>float64(int64(d)) / float64(clockRate)\<close>. The model keeps the
  exact quotient, and the IEEE results of a division by zero (the clock rate of a forwarder
  whose codec is not yet determined is 0). The code only compares \<open>diffSeconds\<close> with 0
  and with the four thresholds of this file, and there the rounded and the exact
  quotient agree for every 32-bit clock rate: the sign survives rounding; a quotient of
  integers \<open>x / c\<close> with \<open>0 < c < 2^32\<close> that differs from a threshold differs from it by
  more than \<open>10^-11\<close>, far above the rounding error of the division; and the conversion of
  \<open>x\<close> rounds only beyond \<open>2^53\<close>, where the quotient exceeds every threshold.
\<close>

datatype float64 = NaN | PosInf | NegInf | Finite rat

definition diffSecondsOf :: "64 word \<Rightarrow> 32 word \<Rightarrow> float64" where
  "diffSecondsOf d clockRate =
     (if clockRate = 0 then
        (if sint d = 0 then NaN else if sint d > 0 then PosInf else NegInf)
      else Finite (rat_of_int (sint d) / rat_of_int (uint clockRate)))"

fun f_ge :: "float64 \<Rightarrow> rat \<Rightarrow> bool" where
  "f_ge (Finite q) r = (q \<ge> r)"
| "f_ge PosInf r = True"
| "f_ge NegInf r = False"
| "f_ge NaN r = False"

fun f_gt :: "float64 \<Rightarrow> rat \<Rightarrow> bool" where
  "f_gt (Finite q) r = (q > r)"
| "f_gt PosInf r = True"
| "f_gt NegInf r = False"
| "f_gt NaN r = False"

fun f_lt :: "float64 \<Rightarrow> rat \<Rightarrow> bool" where
  "f_lt (Finite q) r = (q < r)"
| "f_lt PosInf r = False"
| "f_lt NegInf r = True"
| "f_lt NaN r = False"

fun f_abs :: "float64 \<Rightarrow> float64" where
  "f_abs (Finite q) = Finite \<bar>q\<bar>"
| "f_abs PosInf = PosInf"
| "f_abs NegInf = PosInf"
| "f_abs NaN = NaN"

subsection \<open>The source-switch reconciler\<close>

text \<open>
  Stitching the 32-bit reference timestamp into the extended space, with the correction
  for a wrap in either direction.
\<close>

definition stitchRefTS :: "64 word \<Rightarrow> 64 word \<Rightarrow> 32 word \<Rightarrow> 64 word" where
  "stitchRefTS extRefTS extExpectedTS ts =
     (let r0 = (extRefTS AND 0xFFFFFFFF00000000) + ucast ts;
          expectedTS32 = (ucast extExpectedTS :: 32 word);
          r1 = (if ts - expectedTS32 < 2 ^ 31 \<and> ts < expectedTS32 then r0 + 2 ^ 32 else r0)
      in if expectedTS32 - ts < 2 ^ 31 \<and> expectedTS32 < ts \<and> r1 \<ge> 2 ^ 32 then r1 - 2 ^ 32
         else r1)"

text \<open>
  \<open>rtpDiff = uint64(timeSinceFirst.Nanoseconds() * int64(clockRate) / 1e9)\<close>: the product
  wraps in \<open>int64\<close>, the division truncates towards zero.
\<close>

definition rtpDiffOf :: "64 word \<Rightarrow> 32 word \<Rightarrow> 64 word" where
  "rtpDiffOf ns clockRate = word_of_int (sint (ns * ucast clockRate) sdiv 1000000000)"

text \<open>
  The three timestamps \<open>(extLastTS, extExpectedTS, extRefTS)\<close> as they stand before the
  decision, or the error of the reference callback. \<open>refTSOffset\<close> may be initialised on
  the way.
\<close>

definition referenceTimestamps ::
  "('m, 'c) Mungers \<Rightarrow> Clock \<Rightarrow> ('m, 'c, 's) Forwarder \<Rightarrow> ExtPacket \<Rightarrow> int
     \<Rightarrow> (error + 64 word \<times> 64 word \<times> 64 word) \<times> ('m, 'c, 's) Forwarder" where
  "referenceTimestamps M clk f extPkt layer =
     (let extLastTS = ExtLastTS (GetLast M (rtpMunger f));
          extExpectedTS0 = extLastTS;
          extRefTS0 = extExpectedTS0;
          ref = (case getReferenceLayerRTPTimestamp f of
                   None \<Rightarrow> Inr extRefTS0
                 | Some cb \<Rightarrow>
                     (case cb (Timestamp extPkt) layer (referenceLayerSpatial f) of
                        Inl err \<Rightarrow> Inl err
                      | Inr ts \<Rightarrow> Inr (stitchRefTS extRefTS0 extExpectedTS0 ts)))
      in case ref of
           Inl err \<Rightarrow> (Inl err, f)
         | Inr extRefTS1 \<Rightarrow>
             (let (extExpectedTS, f1) =
                    (case getExpectedRTPTimestamp f of
                       None \<Rightarrow> (extExpectedTS0, f)
                     | Some cb \<Rightarrow>
                         (case cb (switchingAt clk) of
                            Inr tsExt \<Rightarrow> (tsExt, f)
                          | Inl err \<Rightarrow>
                              (case preStartTime f of
                                 None \<Rightarrow> (extExpectedTS0, f)
                               | Some t0 \<Rightarrow>
                                   (let e = extFirstTS f
                                              + rtpDiffOf (timeSinceFirst clk) (codecClockRate f)
                                    in (e, if refTSOffset f = 0
                                           then f\<lparr>refTSOffset := e - extRefTS1\<rparr> else f)))))
              in (Inr (extLastTS, extExpectedTS, extRefTS1 + refTSOffset f1), f1)))"

text \<open>
  The decision rule: the candidate for \<open>extNextTS\<close>, or the error of a layer switch whose
  reference is too far behind. On a resume \<open>resumeBehindThreshold\<close> is cleared.
\<close>

definition decideNextTS ::
  "('m, 'c, 's) Forwarder \<Rightarrow> 64 word \<Rightarrow> 64 word \<Rightarrow> 64 word
     \<Rightarrow> (error + 64 word) \<times> ('m, 'c, 's) Forwarder" where
  "decideNextTS f extLastTS extExpectedTS extRefTS =
     (if lastSSRC f = 0 then
        (let diffSeconds = diffSecondsOf (extExpectedTS - extRefTS) (codecClockRate f);
             extNextTS =
               (if f_ge diffSeconds 0 then
                  (if resumeBehindThreshold f > 0 \<and> f_gt diffSeconds (resumeBehindThreshold f)
                   then extExpectedTS
                   else if f_gt diffSeconds ResumeBehindHighTresholdSeconds then extExpectedTS
                   else extRefTS)
                else extRefTS)
         in (Inr extNextTS, f\<lparr>resumeBehindThreshold := 0\<rparr>))
      else
        (let diffSeconds = diffSecondsOf (extRefTS - extLastTS) (codecClockRate f)
         in if f_lt diffSeconds 0 then
              (if f_gt (f_abs diffSeconds) LayerSwitchBehindThresholdSeconds
               then (Inl ErrSwitchPointTooFarBehind, f)
               else (Inr (extLastTS + 1), f))
            else (Inr extRefTS, f)))"

definition guardNextTS :: "64 word \<Rightarrow> 64 word \<Rightarrow> 64 word" where
  "guardNextTS extLastTS extNextTS =
     (if sint (extNextTS - extLastTS) \<le> 0 then extLastTS + 1 else extNextTS)"

text \<open>
  The timestamps of a switch on a started forwarder: \<open>(extLastTS, extNextTS)\<close> with the
  guard applied, or the error.
\<close>

definition switchTimestamps ::
  "('m, 'c) Mungers \<Rightarrow> Clock \<Rightarrow> ('m, 'c, 's) Forwarder \<Rightarrow> ExtPacket \<Rightarrow> int
     \<Rightarrow> (error + 64 word \<times> 64 word) \<times> ('m, 'c, 's) Forwarder" where
  "switchTimestamps M clk f extPkt layer =
     (case referenceTimestamps M clk f extPkt layer of
        (Inl err, f1) \<Rightarrow> (Inl err, f1)
      | (Inr (extLastTS, extExpectedTS, extRefTS), f1) \<Rightarrow>
          (case decideNextTS f1 extLastTS extExpectedTS extRefTS of
             (Inl err, f2) \<Rightarrow> (Inl err, f2)
           | (Inr extNextTS, f2) \<Rightarrow> (Inr (extLastTS, guardNextTS extLastTS extNextTS), f2)))"

text \<open>
  The head of \<open>processSourceSwitch\<close> on a started forwarder: a forwarder seeded without a
  reference layer takes the layer of this packet.
\<close>

definition catchUp :: "('m, 'c, 's) Forwarder \<Rightarrow> int \<Rightarrow> ('m, 'c, 's) Forwarder" where
  "catchUp f layer =
     (if referenceLayerSpatial f = InvalidLayerSpatial then f\<lparr>referenceLayerSpatial := layer\<rparr>
      else f)"

text \<open>
  \<open>processSourceSwitch\<close> returns the error (\<open>None\<close> for \<open>nil\<close>) and the forwarder, which
  keeps what was written before an error return.
\<close>

definition processSourceSwitch ::
  "('m, 'c) Mungers \<Rightarrow> Clock \<Rightarrow> ('m, 'c, 's) Forwarder \<Rightarrow> ExtPacket \<Rightarrow> int
     \<Rightarrow> error option \<times> ('m, 'c, 's) Forwarder" where
  "processSourceSwitch M clk f extPkt layer =
     (if \<not> started f then
        (None, f\<lparr>started := True, referenceLayerSpatial := layer,
                 rtpMunger := SetLastSnTs M extPkt (rtpMunger f),
                 codecMunger := CodecSetLast M extPkt (codecMunger f)\<rparr>)
      else
        (case switchTimestamps M clk (catchUp f layer) extPkt layer of
           (Inl err, f1) \<Rightarrow> (Some err, f1)
         | (Inr (extLastTS, extNextTS), f1) \<Rightarrow>
             (None, f1\<lparr>rtpMunger :=
                         UpdateSnTsOffsets M extPkt 1 (extNextTS - extLastTS) (rtpMunger f1),
                       codecMunger := CodecUpdateOffsets M extPkt (codecMunger f1)\<rparr>)))"

subsection \<open>The translation pipeline\<close>

definition getTranslationParamsCommon ::
  "('m, 'c) Mungers \<Rightarrow> Clock \<Rightarrow> ('m, 'c, 's) Forwarder \<Rightarrow> ExtPacket \<Rightarrow> int
     \<Rightarrow> TranslationParams \<Rightarrow> (error option \<times> TranslationParams) \<times> ('m, 'c, 's) Forwarder" where
  "getTranslationParamsCommon M clk f extPkt layer tp =
     (let switched =
            (if lastSSRC f \<noteq> SSRC extPkt then
               (case processSourceSwitch M clk f extPkt layer of
                  (Some err, f1) \<Rightarrow> Inl f1
                | (None, f1) \<Rightarrow> Inr (f1\<lparr>lastSSRC := SSRC extPkt\<rparr>))
             else Inr f)
      in case switched of
           Inl f1 \<Rightarrow> ((None, tp\<lparr>shouldDrop := True\<rparr>), f1)
         | Inr f2 \<Rightarrow>
             (case UpdateAndGetSnTs M extPkt (marker tp) (rtpMunger f2) of
                (Inl err, m1) \<Rightarrow>
                  ((if err = ErrPaddingOnlyPacket \<or> err = ErrDuplicatePacket
                       \<or> err = ErrOutOfOrderSequenceNumberCacheMiss
                    then None else Some err,
                    tp\<lparr>shouldDrop := True\<rparr>),
                   f2\<lparr>rtpMunger := m1\<rparr>)
              | (Inr tpRTP, m1) \<Rightarrow> ((None, tp\<lparr>rtp := tpRTP\<rparr>), f2\<lparr>rtpMunger := m1\<rparr>)))"

definition getTranslationParamsAudio ::
  "('m, 'c) Mungers \<Rightarrow> Clock \<Rightarrow> ('m, 'c, 's) Forwarder \<Rightarrow> ExtPacket \<Rightarrow> int
     \<Rightarrow> (error option \<times> TranslationParams) \<times> ('m, 'c, 's) Forwarder" where
  "getTranslationParamsAudio M clk f extPkt layer =
     (case getTranslationParamsCommon M clk f extPkt layer TranslationParamsZero of
        ((Some err, tp), f1) \<Rightarrow> ((Some err, tp\<lparr>shouldDrop := True\<rparr>), f1)
      | ((None, tp), f1) \<Rightarrow> ((None, tp), f1))"

definition maybeRollback ::
  "'s SelectorOps \<Rightarrow> bool \<Rightarrow> ('m, 'c, 's) Forwarder \<Rightarrow> ('m, 'c, 's) Forwarder" where
  "maybeRollback V switching f = (if switching then f\<lparr>vls := Rollback V (vls f)\<rparr> else f)"

definition getTranslationParamsVideo ::
  "'s SelectorOps \<Rightarrow> ('m, 'c) Mungers \<Rightarrow> Clock \<Rightarrow> ('m, 'c, 's) Forwarder \<Rightarrow> ExtPacket \<Rightarrow> int
     \<Rightarrow> (error option \<times> TranslationParams) \<times> ('m, 'c, 's) Forwarder" where
  "getTranslationParamsVideo V M clk f extPkt layer =
     (let tp = TranslationParamsZero
      in if \<not> IsValid (targetLayer (vls f)) then ((None, tp\<lparr>shouldDrop := True\<rparr>), f)
         else
           (let (result, v1) = Select V extPkt layer (vls f);
                f1 = f\<lparr>vls := v1\<rparr>
            in if \<not> IsSelected result then
                 ((None, tp\<lparr>shouldDrop := True\<rparr>),
                  (if started f1 \<and> IsRelevant result then
                     (case UpdateAndGetSnTs M extPkt (RTPMarker result) (rtpMunger f1) of
                        (Inr tpRTP, m1) \<Rightarrow>
                          (if snOrdering tpRTP = SequenceNumberOrderingContiguous
                           then f1\<lparr>rtpMunger := PacketDropped M extPkt m1\<rparr>
                           else f1\<lparr>rtpMunger := m1\<rparr>)
                      | (Inl err, m1) \<Rightarrow> f1\<lparr>rtpMunger := m1\<rparr>)
                   else f1))
               else
                 (let tp1 = tp\<lparr>isResuming := IsResuming result,
                               isSwitching := IsSwitching result,
                               ddBytes := DependencyDescriptorExtension result,
                               marker := RTPMarker result\<rparr>
                  in if FlagPauseOnDowngrade \<and> IsDeficient (lastAllocation f1)
                        \<and> Spatial (targetLayer (vls f1)) < Spatial (currentLayer (vls f1))
                     then ((None, tp1\<lparr>shouldDrop := True\<rparr>),
                           maybeRollback V (IsSwitching result) f1)
                     else
                       (case getTranslationParamsCommon M clk f1 extPkt layer tp1 of
                          ((err, tp2), f2) \<Rightarrow>
                            if shouldDrop tp2
                            then ((err, tp2), maybeRollback V (IsSwitching result) f2)
                            else ((None, tp2), f2)))))"

definition GetTranslationParams ::
  "'s SelectorOps \<Rightarrow> ('m, 'c) Mungers \<Rightarrow> Clock \<Rightarrow> ('m, 'c, 's) Forwarder \<Rightarrow> ExtPacket \<Rightarrow> int
     \<Rightarrow> (error option \<times> TranslationParams) \<times> ('m, 'c, 's) Forwarder" where
  "GetTranslationParams V M clk f extPkt layer =
     (if muted f \<or> pubMuted f
      then ((None, TranslationParamsZero\<lparr>shouldDrop := True\<rparr>), f)
      else
        (case kind f of
           RTPCodecTypeAudio \<Rightarrow> getTranslationParamsAudio M clk f extPkt layer
         | RTPCodecTypeVideo \<Rightarrow> getTranslationParamsVideo V M clk f extPkt layer
         | RTPCodecTypeUnknown \<Rightarrow>
             ((Some ErrUnknownKind, TranslationParamsZero\<lparr>shouldDrop := True\<rparr>), f)))"

subsection \<open>Construction and example states\<close>

text \<open>
  \<open>NewForwarder\<close>. The fresh RTP munger, the null selector and the null codec munger
  come from their own packages and are arguments here.
\<close>

definition NewForwarder ::
  "RTPCodecType \<Rightarrow> (32 word \<Rightarrow> int \<Rightarrow> int \<Rightarrow> error + 32 word) option
     \<Rightarrow> (int \<Rightarrow> error + 64 word) option \<Rightarrow> 'm \<Rightarrow> 's VideoLayerSelector \<Rightarrow> 'c
     \<Rightarrow> ('m, 'c, 's) Forwarder" where
  "NewForwarder k getRef getExpected newRTPMunger newNull newNullCodec =
     (let f = \<lparr>codecMimeType = [], codecClockRate = 0, kind = k,
               getReferenceLayerRTPTimestamp = getRef, getExpectedRTPTimestamp = getExpected,
               muted = False, pubMuted = False, resumeBehindThreshold = 0,
               started = False, preStartTime = None, extFirstTS = 0, lastSSRC = 0,
               referenceLayerSpatial = InvalidLayerSpatial, refTSOffset = 0,
               provisional = None, lastAllocation = VideoAllocationDefault,
               rtpMunger = newRTPMunger, vls = newNull, codecMunger = newNullCodec\<rparr>
      in if k = RTPCodecTypeVideo
         then f\<lparr>vls := (vls f)\<lparr>maxLayer := (maxLayer (vls f))
                         \<lparr>Temporal := DefaultMaxLayerTemporal\<rparr>\<rparr>\<rparr>
         else f)"

text \<open>
  Modelled from the spec: the null selector is implemented outside forwarder.go; "Forwarder
  is created with invalid layers and a null selector/munger".
\<close>

definition nullSelector :: "unit VideoLayerSelector" where
  "nullSelector =
     \<lparr>maxLayer = InvalidLayer, maxSeenLayer = InvalidLayer, currentLayer = InvalidLayer,
      targetLayer = InvalidLayer, requestSpatial = InvalidLayerSpatial,
      overshootOkay = False, variant = ()\<rparr>"

text \<open>A video forwarder as \<open>NewForwarder\<close> leaves it, with no callbacks.\<close>

definition freshVideo :: "(unit, unit, unit) Forwarder" where
  "freshVideo = NewForwarder RTPCodecTypeVideo None None () nullSelector ()"

text \<open>
  The same forwarder once a VP8 feed with three spatial and four temporal layers is
  subscribed in full: \<open>MaxLayer = MaxSeen = (2, 3)\<close>.
\<close>

definition subscribedVideo :: "(unit, unit, unit) Forwarder" where
  "subscribedVideo =
     freshVideo
       \<lparr>codecMimeType := ''video/vp8'', codecClockRate := 90000,
        vls := (vls freshVideo)
          \<lparr>maxLayer := \<lparr>Spatial = 2, Temporal = 3\<rparr>,
           maxSeenLayer := \<lparr>Spatial = 2, Temporal = 3\<rparr>\<rparr>\<rparr>"

text \<open>The all-zero bitrate matrix of three spatial and four temporal layers.\<close>

definition zeroBitrates :: Bitrates where
  "zeroBitrates = [[0, 0, 0, 0], [0, 0, 0, 0], [0, 0, 0, 0]]"






text \<open>
  A small RTP munger to run the pipeline on concrete packets. It keeps only the last
  outgoing extended sequence number and timestamp: a source switch moves them by the given
  deltas, and every packet is translated to them in order. The codec munger is trivial.
\<close>

definition lastOnlyMungers :: "(RTPMungerState, unit) Mungers" where
  "lastOnlyMungers =
     \<lparr>GetLast = id,
      SetLastSnTs = (\<lambda>pkt m. \<lparr>ExtLastSN = ExtSequenceNumber pkt, ExtLastTS = ExtTimestamp pkt\<rparr>),
      UpdateSnTsOffsets = (\<lambda>pkt snAdjust tsAdjust m.
         \<lparr>ExtLastSN = ExtLastSN m + snAdjust, ExtLastTS = ExtLastTS m + tsAdjust\<rparr>),
      UpdateAndGetSnTs = (\<lambda>pkt mk m.
         (Inr \<lparr>snOrdering = SequenceNumberOrderingContiguous,
               extSequenceNumber = ExtLastSN m, extTimestamp = ExtLastTS m\<rparr>, m)),
      PacketDropped = (\<lambda>pkt m. m),
      CodecSetLast = (\<lambda>pkt c. c),
      CodecUpdateOffsets = (\<lambda>pkt c. c)\<rparr>"

text \<open>
  Modelled from the spec: a selector variant with \<open>Select\<close> and \<open>Rollback\<close>, which are
  implemented outside forwarder.go; "a provisional Select may have committed state" and
  \<open>Rollback\<close> undoes it. This one keeps the layer it was on before the last switch as its
  variant state: a packet of the target spatial layer switches the current layer to the
  target, a packet of the current spatial layer is selected without a switch, any other
  packet is not selected.
\<close>

definition switchingSelector :: "VideoLayer SelectorOps" where
  "switchingSelector =
     \<lparr>Select = (\<lambda>pkt layer v.
         if layer = Spatial (targetLayer v) \<and> Spatial (currentLayer v) \<noteq> Spatial (targetLayer v)
         then (\<lparr>IsSelected = True, IsRelevant = True,
                IsResuming = (\<not> IsValid (currentLayer v)), IsSwitching = True,
                RTPMarker = False, DependencyDescriptorExtension = []\<rparr>,
               v\<lparr>currentLayer := targetLayer v, variant := currentLayer v\<rparr>)
         else if layer = Spatial (currentLayer v)
         then (\<lparr>IsSelected = True, IsRelevant = True, IsResuming = False, IsSwitching = False,
                RTPMarker = False, DependencyDescriptorExtension = []\<rparr>, v)
         else (\<lparr>IsSelected = False, IsRelevant = False, IsResuming = False,
                IsSwitching = False, RTPMarker = False, DependencyDescriptorExtension = []\<rparr>,
               v)),
      Rollback = (\<lambda>v. v\<lparr>currentLayer := variant v\<rparr>)\<rparr>"

text \<open>
  A started VP8 forwarder at 90 kHz in the middle of a stream: the last packet went out
  with extended timestamp \<open>lastTS\<close> from SSRC \<open>0x1111\<close>; spatial layer 0 is current and
  the reference layer, spatial layer 1 is the target. The reference callback \<open>getRef\<close> is
  an argument; there is no expected-timestamp callback.
\<close>

definition midStream ::
  "(32 word \<Rightarrow> int \<Rightarrow> int \<Rightarrow> error + 32 word) option \<Rightarrow> 64 word
     \<Rightarrow> (RTPMungerState, unit, VideoLayer) Forwarder" where
  "midStream getRef lastTS =
     \<lparr>codecMimeType = ''video/vp8'', codecClockRate = 90000, kind = RTPCodecTypeVideo,
      getReferenceLayerRTPTimestamp = getRef, getExpectedRTPTimestamp = None,
      muted = False, pubMuted = False, resumeBehindThreshold = 0,
      started = True, preStartTime = None, extFirstTS = 0, lastSSRC = 0x1111,
      referenceLayerSpatial = 0, refTSOffset = 0,
      provisional = None,
      lastAllocation = VideoAllocationDefault
        \<lparr>PauseReason := VideoPauseReasonNone,
         TargetLayer := \<lparr>Spatial = 1, Temporal = 3\<rparr>, RequestLayerSpatial := 1,
         MaxLayer := \<lparr>Spatial = 2, Temporal = 3\<rparr>\<rparr>,
      rtpMunger = \<lparr>ExtLastSN = 500, ExtLastTS = lastTS\<rparr>,
      vls = \<lparr>maxLayer = \<lparr>Spatial = 2, Temporal = 3\<rparr>,
             maxSeenLayer = \<lparr>Spatial = 2, Temporal = 3\<rparr>,
             currentLayer = \<lparr>Spatial = 0, Temporal = 3\<rparr>,
             targetLayer = \<lparr>Spatial = 1, Temporal = 3\<rparr>,
             requestSpatial = 1, overshootOkay = False,
             variant = InvalidLayer\<rparr>,
      codecMunger = ()\<rparr>"

text \<open>A packet of the other source, SSRC \<open>0x2222\<close>, with RTP timestamp \<open>ts\<close>.\<close>

definition packetAt :: "32 word \<Rightarrow> ExtPacket" where
  "packetAt ts =
     \<lparr>SSRC = 0x2222, SequenceNumber = 7, Timestamp = ts, ExtSequenceNumber = 7,
      ExtTimestamp = ucast ts\<rparr>"

definition noon :: Clock where
  "noon = \<lparr>switchingAt = 0, timeSinceFirst = 0\<rparr>"



section \<open>Properties\<close>

subsection \<open>Basic facts\<close>

lemma IsValid_InvalidLayer: "\<not> IsValid InvalidLayer"
  by (simp add: IsValid_def InvalidLayer_def InvalidLayerSpatial_def InvalidLayerTemporal_def)

lemma updateAllocation_fst:
  "fst (updateAllocation f alloc) =
     (if IsValid (TargetLayer alloc) \<and> toLower (codecMimeType f) = ''video/h264''
      then alloc\<lparr>TargetLayer := (TargetLayer alloc)\<lparr>Temporal := 0\<rparr>\<rparr> else alloc)"
  by (simp add: updateAllocation_def Let_def resyncLocked_def setTargetLayer_def)

lemma zeroBitrates_replicate: "zeroBitrates = replicate 3 (replicate 4 0)"
  by (simp add: zeroBitrates_def eval_nat_numeral)

lemma brs_at_zero:
  "brs_at zeroBitrates s t = (if 0 \<le> s \<and> s < 3 \<and> 0 \<le> t \<and> t < 4 then Some 0 else None)"
proof (cases "0 \<le> s \<and> s < 3")
  case True
  then have "nat s < 3" by linarith
  then have row: "replicate 3 (replicate 4 (0::int)) ! nat s = replicate 4 0"
    by (rule nth_replicate)
  show ?thesis
  proof (cases "0 \<le> t \<and> t < 4")
    case True
    then have "nat t < 4" by linarith
    then have "replicate 4 (0::int) ! nat t = 0" by (rule nth_replicate)
    with True \<open>0 \<le> s \<and> s < 3\<close> show ?thesis
      by (simp add: brs_at_def zeroBitrates_replicate row)
  next
    case False
    with \<open>0 \<le> s \<and> s < 3\<close> show ?thesis
      by (auto simp: brs_at_def zeroBitrates_replicate row)
  qed
next
  case False
  then show ?thesis
    by (auto simp: brs_at_def zeroBitrates_replicate)
qed

lemma lenTemporal_zero: "lenTemporal zeroBitrates = 4"
  by (simp add: lenTemporal_def zeroBitrates_def)

subsection \<open>The optimal bandwidth and the distance on degenerate inputs\<close>

lemma optimalOuter_negT: "maxT < 0 \<Longrightarrow> optimalOuter brs i maxT = Some 0"
proof (induction brs i maxT rule: optimalOuter.induct)
  case (1 brs i maxT)
  then show ?case
    by (subst optimalOuter.simps) (simp add: optimalInner.simps)
qed

lemma optimalOuter_negS: "i < 0 \<Longrightarrow> optimalOuter brs i maxT = Some 0"
  by (subst optimalOuter.simps) simp

lemma getOptimal_invalid:
  "\<not> IsValid maxL \<or> sp = InvalidLayerSpatial \<Longrightarrow>
   getOptimalBandwidthNeeded m pm sp brs maxL = Some 0"
  by (auto simp: getOptimalBandwidthNeeded_def IsValid_def optimalOuter_negT optimalOuter_negS)

lemma getDistance_invalid:
  "\<not> IsValid maxL \<or> Spatial maxSeen = InvalidLayerSpatial \<Longrightarrow>
   getDistanceToDesired m pm maxSeen als brs target maxL = Some 0"
  by (auto simp: getDistanceToDesired_def IsValid_def InvalidLayerSpatial_def)

lemma optimalInner_zero:
  "0 \<le> i \<Longrightarrow> i < 3 \<Longrightarrow> j < 4 \<Longrightarrow> optimalInner zeroBitrates i j = Some None"
proof (induction zeroBitrates i j rule: optimalInner.induct)
  case (1 i j)
  then show ?case
    by (subst optimalInner.simps) (simp add: brs_at_zero)
qed

lemma optimalOuter_zero:
  "i < 3 \<Longrightarrow> j < 4 \<Longrightarrow> optimalOuter zeroBitrates i j = Some 0"
proof (induction zeroBitrates i j rule: optimalOuter.induct)
  case (1 i j)
  then show ?case
    by (subst optimalOuter.simps) (simp add: optimalInner_zero)
qed

lemma rowHasBitrate_zero:
  "0 \<le> s \<Longrightarrow> s < 3 \<Longrightarrow> t < 4 \<Longrightarrow> rowHasBitrate zeroBitrates s t = Some None"
proof (induction zeroBitrates s t rule: rowHasBitrate.induct)
  case (1 s t)
  then show ?case
    by (subst rowHasBitrate.simps) (simp add: brs_at_zero)
qed

lemma maxAvailableSpatialLoop_zero:
  "s < 3 \<Longrightarrow> maxAvailableSpatialLoop zeroBitrates s = Some InvalidLayerSpatial"
proof (induction zeroBitrates s rule: maxAvailableSpatialLoop.induct)
  case (1 s)
  then show ?case
    by (subst maxAvailableSpatialLoop.simps) (simp add: rowHasBitrate_zero lenTemporal_zero)
qed

lemma availableLoop_ge: "sp \<le> fst (availableLoop als seenT (sp, tp))"
proof (induction als arbitrary: sp tp)
  case Nil
  then show ?case by simp
next
  case (Cons a als)
  show ?case
    using Cons.IH [of a seenT] Cons.IH [of sp tp] by auto
qed

lemma requestLoop_ge:
  "req \<le> fst (requestLoop als lm (req, highest))
   \<and> highest \<le> snd (requestLoop als lm (req, highest))"
proof (induction als arbitrary: req highest)
  case Nil
  then show ?case by simp
next
  case (Cons a als)
  show ?case
    using Cons.IH [of "if a > req \<and> a \<le> lm then a else req"
                      "if a > highest then a else highest"]
    by (auto split: if_splits)
qed

lemma getDistance_zero:
  assumes "Spatial maxSeen = 2" "Spatial maxL = 2"
  shows "\<exists>d. getDistanceToDesired m pm maxSeen als zeroBitrates target maxL = Some d"
proof -
  obtain sp tp where al:
    "availableLoop als (Temporal maxSeen) (InvalidLayerSpatial, InvalidLayerTemporal) = (sp, tp)"
    by (cases "availableLoop als (Temporal maxSeen) (InvalidLayerSpatial, InvalidLayerTemporal)")
  have "InvalidLayerSpatial \<le> sp"
    using availableLoop_ge [of InvalidLayerSpatial als "Temporal maxSeen" InvalidLayerTemporal] al
    by simp
  then have sp: "- 1 \<le> sp" by (simp add: InvalidLayerSpatial_def)
  have row1: "sp < 2 \<Longrightarrow> sp \<noteq> InvalidLayerSpatial \<Longrightarrow>
                rowHasBitrate zeroBitrates sp 3 = Some None"
    using sp by (intro rowHasBitrate_zero) (auto simp: InvalidLayerSpatial_def)
  have row2: "rowHasBitrate zeroBitrates 2 3 = Some None"
    by (intro rowHasBitrate_zero) auto
  have len: "int (length zeroBitrates) - 1 = 2" by (simp add: zeroBitrates_def)
  show ?thesis
    by (simp add: getDistanceToDesired_def maxAvailableSpatialLoop_zero len al lenTemporal_zero
        assms row1 row2 Let_def)
qed

subsection \<open>AllocateOptimal\<close>

lemma AllocateOptimal_video:
  assumes "kind f = RTPCodecTypeVideo"
    and "getOptimalBandwidthNeeded (muted f) (pubMuted f) (Spatial (maxSeenLayer (vls f)))
           brs (maxLayer (vls f)) = Some opt"
    and "getBandwidthNeeded brs (targetLayer (vls f)) (BandwidthRequested (lastAllocation f))
           = Some bn"
    and "getDistanceToDesired (muted f) (pubMuted f) (maxSeenLayer (vls f)) als brs
           (TargetLayer (optimalTarget f als brs ovs opt)) (maxLayer (vls f)) = Some d"
  shows "AllocateOptimal f als brs ovs =
           Some (updateAllocation f
                  ((optimalTarget f als brs ovs opt)
                     \<lparr>BandwidthDelta := BandwidthRequested (optimalTarget f als brs ovs opt) - bn,
                      DistanceToDesired := d\<rparr>))"
  by (simp add: AllocateOptimal_def assms Let_def)

lemma optimalTarget_invalid_max:
  assumes "\<not> IsValid (maxLayer (vls f)) \<or> Spatial (maxSeenLayer (vls f)) = InvalidLayerSpatial"
  shows "TargetLayer (optimalTarget f als brs ovs 0) = InvalidLayer
         \<and> PauseReason (optimalTarget f als brs ovs 0) = VideoPauseReasonFeedDry
         \<and> BandwidthRequested (optimalTarget f als brs ovs 0) = 0"
  using assms
  by (auto simp: optimalTarget_def Let_def IsValid_InvalidLayer VideoAllocationZero_def)

lemma AllocateOptimal_invalid_max_result:
  assumes video: "kind f = RTPCodecTypeVideo"
    and inv: "\<not> IsValid (maxLayer (vls f)) \<or> Spatial (maxSeenLayer (vls f)) = InvalidLayerSpatial"
    and tgt: "getBandwidthNeeded brs (targetLayer (vls f))
                (BandwidthRequested (lastAllocation f)) = Some bn"
  shows "\<exists>alloc f1. AllocateOptimal f availableLayers brs allowOvershoot = Some (alloc, f1)
           \<and> TargetLayer alloc = InvalidLayer
           \<and> PauseReason alloc = VideoPauseReasonFeedDry
           \<and> BandwidthRequested alloc = 0"
proof -
  let ?t = "optimalTarget f availableLayers brs allowOvershoot 0"
  note t = optimalTarget_invalid_max [OF inv, of availableLayers brs allowOvershoot]
  have opt: "getOptimalBandwidthNeeded (muted f) (pubMuted f) (Spatial (maxSeenLayer (vls f)))
               brs (maxLayer (vls f)) = Some 0"
    using inv by (rule getOptimal_invalid)
  have dist: "getDistanceToDesired (muted f) (pubMuted f) (maxSeenLayer (vls f))
                availableLayers brs (TargetLayer ?t) (maxLayer (vls f)) = Some 0"
    using inv by (rule getDistance_invalid)
  define a where "a = ?t\<lparr>BandwidthDelta := BandwidthRequested ?t - bn, DistanceToDesired := 0\<rparr>"
  have run: "AllocateOptimal f availableLayers brs allowOvershoot = Some (updateAllocation f a)"
    unfolding a_def by (rule AllocateOptimal_video [OF video opt tgt dist])
  have "fst (updateAllocation f a) = a"
    using t by (simp add: updateAllocation_fst a_def IsValid_InvalidLayer)
  then show ?thesis
    using run t by (cases "updateAllocation f a") (simp add: a_def)
qed

lemma freshVideo_simps:
  "kind freshVideo = RTPCodecTypeVideo"
  "maxLayer (vls freshVideo) = \<lparr>Spatial = - 1, Temporal = 3\<rparr>"
  "maxSeenLayer (vls freshVideo) = InvalidLayer"
  "currentLayer (vls freshVideo) = InvalidLayer"
  "targetLayer (vls freshVideo) = InvalidLayer"
  "muted freshVideo = False" "pubMuted freshVideo = False"
  "codecMimeType freshVideo = []"
  "lastAllocation freshVideo = VideoAllocationDefault"
  by (simp_all add: freshVideo_def NewForwarder_def nullSelector_def InvalidLayer_def
      InvalidLayerSpatial_def InvalidLayerTemporal_def DefaultMaxLayerTemporal_def)

lemma subscribedVideo_simps:
  "kind subscribedVideo = RTPCodecTypeVideo"
  "maxLayer (vls subscribedVideo) = \<lparr>Spatial = 2, Temporal = 3\<rparr>"
  "maxSeenLayer (vls subscribedVideo) = \<lparr>Spatial = 2, Temporal = 3\<rparr>"
  "currentLayer (vls subscribedVideo) = InvalidLayer"
  "targetLayer (vls subscribedVideo) = InvalidLayer"
  "muted subscribedVideo = False" "pubMuted subscribedVideo = False"
  "codecMimeType subscribedVideo = ''video/vp8''"
  "lastAllocation subscribedVideo = VideoAllocationDefault"
  by (simp_all add: subscribedVideo_def freshVideo_def NewForwarder_def nullSelector_def)

lemma subscribedVideo_hyps:
  "kind subscribedVideo = RTPCodecTypeVideo"
  "maxLayer (vls subscribedVideo) = \<lparr>Spatial = 2, Temporal = 3\<rparr>"
  "maxSeenLayer (vls subscribedVideo) = \<lparr>Spatial = 2, Temporal = 3\<rparr>"
  "\<not> muted subscribedVideo" "\<not> pubMuted subscribedVideo"
  "IsValid (targetLayer (vls subscribedVideo)) \<Longrightarrow>
     Spatial (targetLayer (vls subscribedVideo)) < 3 \<and> Temporal (targetLayer (vls subscribedVideo)) < 4"
  by (simp_all add: subscribedVideo_simps IsValid_InvalidLayer)

text \<open>
  Claim C5, as amended. On a video forwarder whose \<open>MaxLayer\<close> is invalid or whose
  \<open>MaxSeen.spatial\<close> is invalid, \<open>AllocateOptimal\<close> returns (provided the bitrate of the
  existing target can be read) an allocation with an invalid target layer, zero bandwidth
  requested, and the pause reason \<open>FeedDry\<close>: the optimal bandwidth is 0 on these inputs,
  which sets \<open>FeedDry\<close> before the \<open>switch\<close>, and the first case of the \<open>switch\<close> leaves it.
\<close>

theorem C5_AllocateOptimal_invalid_max:
  assumes "kind f = RTPCodecTypeVideo"
    and "\<not> IsValid (maxLayer (vls f)) \<or> Spatial (maxSeenLayer (vls f)) = InvalidLayerSpatial"
    and "getBandwidthNeeded brs (targetLayer (vls f))
           (BandwidthRequested (lastAllocation f)) = Some bn"
  shows "\<exists>alloc f1. AllocateOptimal f availableLayers brs allowOvershoot = Some (alloc, f1)
           \<and> TargetLayer alloc = InvalidLayer
           \<and> PauseReason alloc = VideoPauseReasonFeedDry
           \<and> BandwidthRequested alloc = 0"
  using assms by (rule AllocateOptimal_invalid_max_result)

theorem C5_AllocateOptimal_invalid_max_witness:
  "\<exists>alloc f1. AllocateOptimal freshVideo [0, 1, 2] zeroBitrates False = Some (alloc, f1)
           \<and> TargetLayer alloc = InvalidLayer
           \<and> PauseReason alloc = VideoPauseReasonFeedDry
           \<and> BandwidthRequested alloc = 0"
proof -
  have h1: "kind freshVideo = RTPCodecTypeVideo" by (simp add: freshVideo_simps)
  have h2: "\<not> IsValid (maxLayer (vls freshVideo))
            \<or> Spatial (maxSeenLayer (vls freshVideo)) = InvalidLayerSpatial"
    by (simp add: freshVideo_simps IsValid_def)
  have h3: "getBandwidthNeeded zeroBitrates (targetLayer (vls freshVideo))
           (BandwidthRequested (lastAllocation freshVideo)) = Some 0"
    by (simp add: getBandwidthNeeded_def freshVideo_simps IsValid_InvalidLayer
        VideoAllocationDefault_def VideoAllocationZero_def)
  show ?thesis
    by (rule C5_AllocateOptimal_invalid_max [OF h1 h2 h3])
qed

text \<open>
  The claim as stated asks for the pause reason \<open>None\<close>. A video forwarder fresh from
  \<open>NewForwarder\<close> has an invalid \<open>MaxSeen.spatial\<close>, and the allocation it gets carries
  \<open>FeedDry\<close>.
\<close>

theorem C5_no_pause_reason_counterexample:
  "kind freshVideo = RTPCodecTypeVideo
   \<and> Spatial (maxSeenLayer (vls freshVideo)) = InvalidLayerSpatial
   \<and> map_option (PauseReason \<circ> fst) (AllocateOptimal freshVideo [0, 1, 2] zeroBitrates False)
       = Some VideoPauseReasonFeedDry
   \<and> VideoPauseReasonFeedDry \<noteq> VideoPauseReasonNone"
proof -
  have h1: "kind freshVideo = RTPCodecTypeVideo" by (simp add: freshVideo_simps)
  have h2: "\<not> IsValid (maxLayer (vls freshVideo))
            \<or> Spatial (maxSeenLayer (vls freshVideo)) = InvalidLayerSpatial"
    by (simp add: freshVideo_simps IsValid_def)
  have h3: "getBandwidthNeeded zeroBitrates (targetLayer (vls freshVideo))
           (BandwidthRequested (lastAllocation freshVideo)) = Some 0"
    by (simp add: getBandwidthNeeded_def freshVideo_simps IsValid_InvalidLayer
        VideoAllocationDefault_def VideoAllocationZero_def)
  from AllocateOptimal_invalid_max_result [OF h1 h2 h3, of "[0, 1, 2]" False]
  have "map_option (PauseReason \<circ> fst) (AllocateOptimal freshVideo [0, 1, 2] zeroBitrates False)
       = Some VideoPauseReasonFeedDry"
    by auto
  then show ?thesis
    by (simp add: freshVideo_simps InvalidLayer_def)
qed

lemma optimalDefaultCase_23:
  assumes maxL: "maxLayer (vls f) = \<lparr>Spatial = 2, Temporal = 3\<rparr>"
    and seen: "maxSeenLayer (vls f) = \<lparr>Spatial = 2, Temporal = 3\<rparr>"
  shows "IsValid (TargetLayer (optimalDefaultCase f als ovs a))
         \<and> Temporal (TargetLayer (optimalDefaultCase f als ovs a)) = 3
         \<and> (\<not> IsValid (currentLayer (vls f)) \<longrightarrow>
              TargetLayer (optimalDefaultCase f als ovs a) = \<lparr>Spatial = 2, Temporal = 3\<rparr>)
         \<and> PauseReason (optimalDefaultCase f als ovs a) = PauseReason a
         \<and> BandwidthRequested (optimalDefaultCase f als ovs a) = BandwidthRequested a"
proof -
  obtain req0 highest where rl: "requestLoop als 2 (- 1, - 1) = (req0, highest)"
    by (cases "requestLoop als 2 (- 1, - 1)")
  have ge: "- 1 \<le> req0" "- 1 \<le> highest"
    using requestLoop_ge [of "- 1" als 2 "- 1"] rl by simp_all
  have gmt: "getMaxTemporal \<lparr>Spatial = 2, Temporal = 3\<rparr> \<lparr>Spatial = 2, Temporal = 3\<rparr> = 3"
    by (simp add: getMaxTemporal_def)
  have opp: "opportunisticAlloc ovs (overshootOkay (vls f)) \<lparr>Spatial = 2, Temporal = 3\<rparr>
               \<lparr>Spatial = 2, Temporal = 3\<rparr> = \<lparr>Spatial = 2, Temporal = 3\<rparr>"
    by (simp add: opportunisticAlloc_def gmt)
  show ?thesis
    using ge
    by (auto simp: optimalDefaultCase_def Let_def maxL seen rl gmt opp IsValid_def
        InvalidLayerSpatial_def)
qed

lemma optimalTarget_feed_dry:
  assumes maxL: "maxLayer (vls f) = \<lparr>Spatial = 2, Temporal = 3\<rparr>"
    and seen: "maxSeenLayer (vls f) = \<lparr>Spatial = 2, Temporal = 3\<rparr>"
    and nm: "\<not> muted f" and npm: "\<not> pubMuted f"
  shows "IsValid (TargetLayer (optimalTarget f als brs ovs 0))
         \<and> Temporal (TargetLayer (optimalTarget f als brs ovs 0)) = 3
         \<and> (\<not> IsValid (currentLayer (vls f)) \<longrightarrow>
              TargetLayer (optimalTarget f als brs ovs 0) = \<lparr>Spatial = 2, Temporal = 3\<rparr>)
         \<and> PauseReason (optimalTarget f als brs ovs 0) = VideoPauseReasonFeedDry
         \<and> BandwidthRequested (optimalTarget f als brs ovs 0) = 0"
proof -
  define a1 where "a1 = VideoAllocationZero
            \<lparr>PauseReason := VideoPauseReasonNone, Bitrates := brs,
             TargetLayer := InvalidLayer, RequestLayerSpatial := requestSpatial (vls f),
             MaxLayer := maxLayer (vls f), PauseReason := VideoPauseReasonFeedDry,
             BandwidthNeeded := 0\<rparr>"
  have a1: "PauseReason a1 = VideoPauseReasonFeedDry" "BandwidthRequested a1 = 0"
    by (simp_all add: a1_def VideoAllocationZero_def)
  have valid23: "IsValid (maxLayer (vls f))" "Spatial (maxSeenLayer (vls f)) \<noteq> InvalidLayerSpatial"
    by (simp_all add: IsValid_def maxL seen InvalidLayerSpatial_def)
  have "optimalTarget f als brs ovs 0 =
          (optimalDefaultCase f als ovs a1)\<lparr>BandwidthRequested := 0\<rparr>"
    using optimalDefaultCase_23 [OF maxL seen, of als ovs a1]
    by (simp add: optimalTarget_def Let_def valid23 nm npm a1_def)
  then show ?thesis
    using optimalDefaultCase_23 [OF maxL seen, of als ovs a1] a1 by simp
qed

lemma feed_dry_allocation:
  assumes video: "kind f = RTPCodecTypeVideo"
    and maxL: "maxLayer (vls f) = \<lparr>Spatial = 2, Temporal = 3\<rparr>"
    and seen: "maxSeenLayer (vls f) = \<lparr>Spatial = 2, Temporal = 3\<rparr>"
    and nm: "\<not> muted f" and npm: "\<not> pubMuted f"
    and tgt: "IsValid (targetLayer (vls f)) \<Longrightarrow>
                Spatial (targetLayer (vls f)) < 3 \<and> Temporal (targetLayer (vls f)) < 4"
  shows "\<exists>alloc f1. AllocateOptimal f availableLayers zeroBitrates allowOvershoot = Some (alloc, f1)
           \<and> IsValid (TargetLayer alloc)
           \<and> PauseReason alloc = VideoPauseReasonFeedDry
           \<and> BandwidthRequested alloc = 0
           \<and> (\<not> IsValid (currentLayer (vls f)) \<longrightarrow>
                TargetLayer alloc =
                  \<lparr>Spatial = 2,
                   Temporal = (if toLower (codecMimeType f) = ''video/h264'' then 0 else 3)\<rparr>)"
proof -
  let ?bn = "BandwidthRequested (lastAllocation f)"
  let ?t = "optimalTarget f availableLayers zeroBitrates allowOvershoot 0"
  note t = optimalTarget_feed_dry [OF maxL seen nm npm, of availableLayers zeroBitrates allowOvershoot]
  have opt: "getOptimalBandwidthNeeded (muted f) (pubMuted f) (Spatial (maxSeenLayer (vls f)))
               zeroBitrates (maxLayer (vls f)) = Some 0"
    by (simp add: getOptimalBandwidthNeeded_def maxL seen nm npm optimalOuter_zero
        InvalidLayerSpatial_def)
  have bn: "getBandwidthNeeded zeroBitrates (targetLayer (vls f)) ?bn = Some ?bn"
    using tgt by (auto simp: getBandwidthNeeded_def brs_at_zero IsValid_def)
  obtain d where d: "getDistanceToDesired (muted f) (pubMuted f) (maxSeenLayer (vls f))
      availableLayers zeroBitrates (TargetLayer ?t) (maxLayer (vls f)) = Some d"
    using getDistance_zero [where maxSeen = "maxSeenLayer (vls f)" and maxL = "maxLayer (vls f)"
        and m = "muted f" and pm = "pubMuted f" and als = availableLayers
        and target = "TargetLayer ?t"] maxL seen
    by auto
  define a where "a = ?t\<lparr>BandwidthDelta := BandwidthRequested ?t - ?bn, DistanceToDesired := d\<rparr>"
  have run: "AllocateOptimal f availableLayers zeroBitrates allowOvershoot
               = Some (updateAllocation f a)"
    unfolding a_def by (rule AllocateOptimal_video [OF video opt bn d])
  have av: "IsValid (TargetLayer a)" using t by (simp add: a_def)
  have res: "fst (updateAllocation f a) =
      (if toLower (codecMimeType f) = ''video/h264''
       then a\<lparr>TargetLayer := (TargetLayer a)\<lparr>Temporal := 0\<rparr>\<rparr> else a)"
    using av by (simp add: updateAllocation_fst)
  have fields: "PauseReason a = VideoPauseReasonFeedDry" "BandwidthRequested a = 0"
    "Temporal (TargetLayer a) = 3"
    "\<not> IsValid (currentLayer (vls f)) \<Longrightarrow> TargetLayer a = \<lparr>Spatial = 2, Temporal = 3\<rparr>"
    using t by (simp_all add: a_def)
  show ?thesis
    using run res av fields
    by (cases "updateAllocation f a") (auto simp: IsValid_def)
qed

text \<open>
  Claim C6, as amended. With \<open>MaxLayer = MaxSeen = (2, 3)\<close>, neither mute set and an
  all-zero bitrate matrix, \<open>AllocateOptimal\<close> returns an allocation with pause reason
  \<open>FeedDry\<close> and zero bandwidth requested, and its target layer is valid: the code latches
  on to a layer while the feed is dry. With no current layer the target is \<open>(2, 3)\<close>, the
  temporal layer being 0 for H.264.
\<close>

theorem C6_AllocateOptimal_feed_dry:
  assumes "kind f = RTPCodecTypeVideo"
    and "maxLayer (vls f) = \<lparr>Spatial = 2, Temporal = 3\<rparr>"
    and "maxSeenLayer (vls f) = \<lparr>Spatial = 2, Temporal = 3\<rparr>"
    and "\<not> muted f" and "\<not> pubMuted f"
    and "IsValid (targetLayer (vls f)) \<Longrightarrow>
           Spatial (targetLayer (vls f)) < 3 \<and> Temporal (targetLayer (vls f)) < 4"
  shows "\<exists>alloc f1. AllocateOptimal f availableLayers zeroBitrates allowOvershoot = Some (alloc, f1)
           \<and> IsValid (TargetLayer alloc)
           \<and> PauseReason alloc = VideoPauseReasonFeedDry
           \<and> BandwidthRequested alloc = 0
           \<and> (\<not> IsValid (currentLayer (vls f)) \<longrightarrow>
                TargetLayer alloc =
                  \<lparr>Spatial = 2,
                   Temporal = (if toLower (codecMimeType f) = ''video/h264'' then 0 else 3)\<rparr>)"
  using assms by (rule feed_dry_allocation)

theorem C6_AllocateOptimal_feed_dry_witness:
  "\<exists>alloc f1. AllocateOptimal subscribedVideo [0, 1, 2] zeroBitrates False = Some (alloc, f1)
           \<and> IsValid (TargetLayer alloc)
           \<and> PauseReason alloc = VideoPauseReasonFeedDry
           \<and> BandwidthRequested alloc = 0
           \<and> TargetLayer alloc = \<lparr>Spatial = 2, Temporal = 3\<rparr>"
  using C6_AllocateOptimal_feed_dry [OF subscribedVideo_hyps, of "[0, 1, 2]" False]
  by (simp add: subscribedVideo_simps IsValid_InvalidLayer toLower_def toLowerChar_def)

text \<open>
  The claim as stated asks for an invalid target layer. On the subscribed forwarder with no
  current layer the target returned is \<open>(2, 3)\<close>.
\<close>

theorem C6_invalid_target_counterexample:
  "maxLayer (vls subscribedVideo) = \<lparr>Spatial = 2, Temporal = 3\<rparr>
   \<and> maxSeenLayer (vls subscribedVideo) = \<lparr>Spatial = 2, Temporal = 3\<rparr>
   \<and> muted subscribedVideo = False \<and> pubMuted subscribedVideo = False
   \<and> map_option (TargetLayer \<circ> fst)
        (AllocateOptimal subscribedVideo [0, 1, 2] zeroBitrates False)
       = Some \<lparr>Spatial = 2, Temporal = 3\<rparr>
   \<and> IsValid \<lparr>Spatial = 2, Temporal = 3\<rparr>"
proof -
  from feed_dry_allocation [OF subscribedVideo_hyps, of "[0, 1, 2]" False]
  have "map_option (TargetLayer \<circ> fst)
        (AllocateOptimal subscribedVideo [0, 1, 2] zeroBitrates False)
       = Some \<lparr>Spatial = 2, Temporal = 3\<rparr>"
    by (auto simp: subscribedVideo_simps IsValid_InvalidLayer toLower_def toLowerChar_def)
  then show ?thesis
    by (simp add: subscribedVideo_simps IsValid_def)
qed

subsection \<open>Mute\<close>

text \<open>
  Claim C10. On a forwarder that is not muted, \<open>Mute(true, false)\<close> returns \<open>false\<close> and
  leaves the whole forwarder as it was: the muted flag, the current layer, \<open>lastSSRC\<close>
  and \<open>resumeBehindThreshold\<close> with it.
\<close>

theorem C10_Mute_declined:
  "\<not> muted f \<Longrightarrow> Mute f True False = (False, f)"
  by (simp add: Mute_def)

theorem C10_Mute_declined_witness:
  "Mute freshVideo True False = (False, freshVideo)"
  using C10_Mute_declined [of freshVideo] by (simp add: freshVideo_simps)


subsection \<open>ProvisionalAllocate\<close>




lemma subscribedVideo_overshoot: "overshootOkay (vls subscribedVideo) = False"
  by (simp add: subscribedVideo_def freshVideo_def NewForwarder_def nullSelector_def)





subsection \<open>ProvisionalAllocateGetCooperativeTransition\<close>

text \<open>
  What the search for \<open>maximalLayer\<close> finds: when it returns a valid layer, that layer lies
  at or below \<open>maxLayer\<close> on both axes, its bitrate is the non-zero one returned, and every
  cell of the searched rectangle that is greater than it reads 0.
\<close>

lemma maximalInner_found:
  "maximalInner brs s t = Some (Some (l, b)) \<Longrightarrow>
   Spatial l = s \<and> 0 \<le> Temporal l \<and> Temporal l \<le> t
   \<and> brs_at brs s (Temporal l) = Some b \<and> b \<noteq> 0
   \<and> (\<forall>t'. Temporal l < t' \<and> t' \<le> t \<longrightarrow> brs_at brs s t' = Some 0)"
proof (induction brs s t rule: maximalInner.induct)
  case (1 brs s t)
  from "1.prems" have t0: "0 \<le> t"
    by (subst (asm) maximalInner.simps) (simp split: if_splits)
  with "1.prems" obtain c where c: "brs_at brs s t = Some c"
    by (subst (asm) maximalInner.simps) (auto split: bind_splits)
  show ?case
  proof (cases "c = 0")
    case False
    with "1.prems" t0 c have "l = \<lparr>Spatial = s, Temporal = t\<rparr>" "b = c"
      by (subst (asm) maximalInner.simps, simp)+
    with False t0 c show ?thesis by auto
  next
    case True
    with "1.prems" t0 c have rec: "maximalInner brs s (t - 1) = Some (Some (l, b))"
      by (subst (asm) maximalInner.simps) simp
    have ih: "Spatial l = s \<and> 0 \<le> Temporal l \<and> Temporal l \<le> t - 1
       \<and> brs_at brs s (Temporal l) = Some b \<and> b \<noteq> 0
       \<and> (\<forall>t'. Temporal l < t' \<and> t' \<le> t - 1 \<longrightarrow> brs_at brs s t' = Some 0)"
      using "1.IH" [OF t0 c _ rec] True by simp
    have "brs_at brs s t' = Some 0" if "Temporal l < t'" "t' \<le> t" for t'
    proof (cases "t' = t")
      case True
      with c \<open>c = 0\<close> show ?thesis by simp
    next
      case False
      with that ih show ?thesis by auto
    qed
    with ih show ?thesis by auto
  qed
qed

lemma maximalInner_none:
  "maximalInner brs s t = Some None \<Longrightarrow> 0 \<le> t' \<Longrightarrow> t' \<le> t \<Longrightarrow> brs_at brs s t' = Some 0"
proof (induction brs s t rule: maximalInner.induct)
  case (1 brs s t)
  from "1.prems" have t0: "0 \<le> t" by simp
  with "1.prems"(1) obtain c where c: "brs_at brs s t = Some c"
    by (subst (asm) maximalInner.simps) (auto split: bind_splits)
  with "1.prems"(1) t0 have z: "c = 0" and rec: "maximalInner brs s (t - 1) = Some None"
    by (subst (asm) maximalInner.simps, simp split: if_splits)+
  show ?case
  proof (cases "t' = t")
    case True
    with c z show ?thesis by simp
  next
    case False
    with "1.IH" [OF t0 c _ rec] z "1.prems" show ?thesis by simp
  qed
qed

lemma maximalOuter_highest:
  "maximalOuter brs s maxT = Some (l, b) \<Longrightarrow> IsValid l \<Longrightarrow>
   Spatial l \<le> s \<and> Temporal l \<le> maxT \<and> brs_at brs (Spatial l) (Temporal l) = Some b \<and> b \<noteq> 0
   \<and> (\<forall>s' t'. 0 \<le> s' \<and> s' \<le> s \<and> 0 \<le> t' \<and> t' \<le> maxT
                 \<and> GreaterThan \<lparr>Spatial = s', Temporal = t'\<rparr> l \<longrightarrow> brs_at brs s' t' = Some 0)"
proof (induction brs s maxT rule: maximalOuter.induct)
  case (1 brs s maxT)
  have s0: "0 \<le> s"
  proof (rule ccontr)
    assume "\<not> 0 \<le> s"
    with "1.prems"(1) have "l = InvalidLayer"
      by (subst (asm) maximalOuter.simps) simp
    with "1.prems"(2) show False by (simp add: IsValid_InvalidLayer)
  qed
  with "1.prems"(1) obtain r where r: "maximalInner brs s maxT = Some r"
    by (subst (asm) maximalOuter.simps) (auto split: bind_splits)
  show ?case
  proof (cases r)
    case (Some lb)
    with "1.prems"(1) s0 r have "lb = (l, b)"
      by (subst (asm) maximalOuter.simps) simp
    with r Some have "maximalInner brs s maxT = Some (Some (l, b))" by simp
    from maximalInner_found [OF this] show ?thesis
      by (auto simp: GreaterThan_def)
  next
    case None
    with "1.prems"(1) s0 r have rec: "maximalOuter brs (s - 1) maxT = Some (l, b)"
      by (subst (asm) maximalOuter.simps) simp
    note ih = "1.IH" [OF s0 r None rec "1.prems"(2)]
    have row: "brs_at brs s t' = Some 0" if "0 \<le> t'" "t' \<le> maxT" for t'
      using maximalInner_none [OF r [unfolded None] that] .
    have "brs_at brs s' t' = Some 0"
      if "0 \<le> s'" "s' \<le> s" "0 \<le> t'" "t' \<le> maxT" "GreaterThan \<lparr>Spatial = s', Temporal = t'\<rparr> l"
      for s' t'
    proof (cases "s' = s")
      case True
      with row that show ?thesis by simp
    next
      case False
      with that ih show ?thesis by auto
    qed
    with ih show ?thesis by auto
  qed
qed









subsection \<open>ProvisionalAllocateGetBestWeightedTransition\<close>





















subsection \<open>AllocateNextHigher\<close>

lemma doAllocationInner_zeros:
  "(\<And>t'. t \<le> t' \<Longrightarrow> t' \<le> maxT \<Longrightarrow> brs_at brs s t' = Some 0) \<Longrightarrow>
   doAllocationInner f cap als brs ovs already opt s t maxT = Some None"
proof (induction f cap als brs ovs already opt s t maxT rule: doAllocationInner.induct)
  case (1 f cap als brs ovs already opt s t maxT)
  show ?case
  proof (cases "t \<le> maxT")
    case True
    then have z: "brs_at brs s t = Some 0" by (intro "1.prems") auto
    have "doAllocationInner f cap als brs ovs already opt s (t + 1) maxT = Some None"
      using True z by (intro "1.IH") (auto intro: "1.prems")
    then show ?thesis
      using True z by (subst doAllocationInner.simps) simp
  next
    case False
    then show ?thesis by (subst doAllocationInner.simps) simp
  qed
qed


lemma doAllocation_zeros:
  "(\<And>s' t'. s \<le> s' \<Longrightarrow> s' \<le> maxS \<Longrightarrow> minT \<le> t' \<Longrightarrow> t' \<le> maxT \<Longrightarrow> brs_at brs s' t' = Some 0)
   \<Longrightarrow> doAllocation f cap als brs ovs already opt s maxS minT maxT =
         Some ((False, VideoAllocationZero, False), f)"
proof (induction f cap als brs ovs already opt s maxS minT maxT rule: doAllocation.induct)
  case (1 f cap als brs ovs already opt s maxS minT maxT)
  show ?case
  proof (cases "s \<le> maxS")
    case True
    have inner: "doAllocationInner f cap als brs ovs already opt s minT maxT = Some None"
      using True by (intro doAllocationInner_zeros "1.prems") auto
    have "doAllocation f cap als brs ovs already opt (s + 1) maxS minT maxT =
            Some ((False, VideoAllocationZero, False), f)"
      using True inner by (intro "1.IH") (auto intro: "1.prems")
    then show ?thesis
      using True inner by (subst doAllocation.simps) simp
  next
    case False
    then show ?thesis by (subst doAllocation.simps) simp
  qed
qed











subsection \<open>The source-switch reconciler\<close>

lemma guardNextTS_after: "0 < sint (guardNextTS extLastTS extNextTS - extLastTS)"
  by (simp add: guardNextTS_def)

lemma referenceTimestamps_last:
  "referenceTimestamps M clk f pkt layer = (Inr (l, e, r), f1) \<Longrightarrow>
   l = ExtLastTS (GetLast M (rtpMunger f))"
  by (auto simp: referenceTimestamps_def Let_def split: option.splits sum.splits prod.splits)

lemma referenceTimestamps_frame:
  "referenceTimestamps M clk f pkt layer = (res, f1) \<Longrightarrow>
   rtpMunger f1 = rtpMunger f \<and> codecMunger f1 = codecMunger f \<and> vls f1 = vls f
   \<and> lastSSRC f1 = lastSSRC f \<and> codecClockRate f1 = codecClockRate f
   \<and> lastAllocation f1 = lastAllocation f \<and> started f1 = started f
   \<and> resumeBehindThreshold f1 = resumeBehindThreshold f"
  by (auto simp: referenceTimestamps_def Let_def split: option.splits sum.splits prod.splits
      if_splits)

lemma decideNextTS_frame:
  "decideNextTS f l e r = (res, f1) \<Longrightarrow>
   rtpMunger f1 = rtpMunger f \<and> codecMunger f1 = codecMunger f \<and> vls f1 = vls f
   \<and> lastSSRC f1 = lastSSRC f \<and> lastAllocation f1 = lastAllocation f"
  by (auto simp: decideNextTS_def Let_def split: if_splits)

lemma switchTimestamps_frame:
  assumes "switchTimestamps M clk f pkt layer = (res, f1)"
  shows "rtpMunger f1 = rtpMunger f \<and> codecMunger f1 = codecMunger f \<and> vls f1 = vls f
         \<and> lastSSRC f1 = lastSSRC f \<and> lastAllocation f1 = lastAllocation f"
proof (cases "referenceTimestamps M clk f pkt layer")
  case (Pair r0 f0)
  note rf = referenceTimestamps_frame [OF Pair]
  show ?thesis
  proof (cases r0)
    case (Inl err)
    with assms Pair rf show ?thesis by (simp add: switchTimestamps_def)
  next
    case (Inr trip)
    obtain l e r where ler: "trip = (l, e, r)" by (cases trip)
    obtain d0 f2 where d: "decideNextTS f0 l e r = (d0, f2)" by (cases "decideNextTS f0 l e r")
    from assms Pair Inr ler d have "f1 = f2"
      by (cases d0) (simp_all add: switchTimestamps_def)
    with decideNextTS_frame [OF d] rf show ?thesis by simp
  qed
qed

lemma switchTimestamps_forward:
  assumes "switchTimestamps M clk f pkt layer = (Inr (extLastTS, extNextTS), f1)"
  shows "extLastTS = ExtLastTS (GetLast M (rtpMunger f)) \<and> 0 < sint (extNextTS - extLastTS)"
proof (cases "referenceTimestamps M clk f pkt layer")
  case (Pair r0 f0)
  show ?thesis
  proof (cases r0)
    case (Inl err)
    with assms Pair show ?thesis by (simp add: switchTimestamps_def)
  next
    case (Inr trip)
    obtain l e r where ler: "trip = (l, e, r)" by (cases trip)
    obtain d0 f2 where d: "decideNextTS f0 l e r = (d0, f2)" by (cases "decideNextTS f0 l e r")
    from assms Pair Inr ler d have "\<exists>c. extLastTS = l \<and> extNextTS = guardNextTS l c"
      by (cases d0) (auto simp: switchTimestamps_def)
    with referenceTimestamps_last [OF Pair [unfolded Inr ler]] show ?thesis
      by (auto simp: guardNextTS_after)
  qed
qed

lemma processSourceSwitch_started:
  "started f \<Longrightarrow>
   processSourceSwitch M clk f pkt layer =
     (case switchTimestamps M clk (catchUp f layer) pkt layer of
        (Inl err, f1) \<Rightarrow> (Some err, f1)
      | (Inr (extLastTS, extNextTS), f1) \<Rightarrow>
          (None, f1\<lparr>rtpMunger :=
                      UpdateSnTsOffsets M pkt 1 (extNextTS - extLastTS) (rtpMunger f1),
                    codecMunger := CodecUpdateOffsets M pkt (codecMunger f1)\<rparr>))"
  by (simp add: processSourceSwitch_def)

lemma catchUp_frame:
  "rtpMunger (catchUp f layer) = rtpMunger f" "codecMunger (catchUp f layer) = codecMunger f"
  "vls (catchUp f layer) = vls f" "lastSSRC (catchUp f layer) = lastSSRC f"
  "lastAllocation (catchUp f layer) = lastAllocation f"
  "codecClockRate (catchUp f layer) = codecClockRate f"
  "started (catchUp f layer) = started f"
  by (simp_all add: catchUp_def)

lemma switchTimestamps_Inr:
  assumes "switchTimestamps M clk f pkt layer = (Inr (l, n), f2)"
  shows "\<exists>e r f0 cand. referenceTimestamps M clk f pkt layer = (Inr (l, e, r), f0)
           \<and> decideNextTS f0 l e r = (Inr cand, f2) \<and> n = guardNextTS l cand"
proof (cases "referenceTimestamps M clk f pkt layer")
  case (Pair r0 f0)
  show ?thesis
  proof (cases r0)
    case (Inl err)
    with assms Pair show ?thesis by (simp add: switchTimestamps_def)
  next
    case (Inr trip)
    obtain l0 e r where ler: "trip = (l0, e, r)" by (cases trip)
    obtain d0 f3 where d: "decideNextTS f0 l0 e r = (d0, f3)" by (cases "decideNextTS f0 l0 e r")
    from assms Pair Inr ler d show ?thesis
      by (cases d0) (auto simp: switchTimestamps_def)
  qed
qed

lemma source_switch_forward:
  assumes st: "started f" and run: "processSourceSwitch M clk f pkt layer = (None, f1)"
  shows "\<exists>extNextTS cand e r f0 f2.
           referenceTimestamps M clk (catchUp f layer) pkt layer
             = (Inr (ExtLastTS (GetLast M (rtpMunger f)), e, r), f0)
           \<and> decideNextTS f0 (ExtLastTS (GetLast M (rtpMunger f))) e r = (Inr cand, f2)
           \<and> extNextTS = guardNextTS (ExtLastTS (GetLast M (rtpMunger f))) cand
           \<and> (sint (cand - ExtLastTS (GetLast M (rtpMunger f))) \<le> 0 \<longrightarrow>
                extNextTS = ExtLastTS (GetLast M (rtpMunger f)) + 1)
           \<and> 0 < sint (extNextTS - ExtLastTS (GetLast M (rtpMunger f)))
           \<and> rtpMunger f1 =
               UpdateSnTsOffsets M pkt 1 (extNextTS - ExtLastTS (GetLast M (rtpMunger f)))
                 (rtpMunger f)"
proof (cases "switchTimestamps M clk (catchUp f layer) pkt layer")
  case (Pair res f2)
  note fr = switchTimestamps_frame [OF Pair]
  show ?thesis
  proof (cases res)
    case (Inl err)
    with run st Pair show ?thesis by (simp add: processSourceSwitch_started)
  next
    case (Inr ln)
    obtain l n where ln: "ln = (l, n)" by (cases ln)
    note sw = Pair [unfolded Inr ln]
    have l: "l = ExtLastTS (GetLast M (rtpMunger f))"
      using switchTimestamps_forward [OF sw] by (simp add: catchUp_frame)
    have pos: "0 < sint (n - l)"
      using switchTimestamps_forward [OF sw] by blast
    from switchTimestamps_Inr [OF sw] obtain e r f0 cand where
      ref: "referenceTimestamps M clk (catchUp f layer) pkt layer = (Inr (l, e, r), f0)"
      and dec: "decideNextTS f0 l e r = (Inr cand, f2)" and g: "n = guardNextTS l cand"
      by blast
    have m: "rtpMunger f1 = UpdateSnTsOffsets M pkt 1 (n - l) (rtpMunger f)"
      using run st sw fr by (auto simp: processSourceSwitch_started catchUp_frame)
    have gd: "sint (cand - l) \<le> 0 \<longrightarrow> n = l + 1"
      by (simp add: g guardNextTS_def)
    show ?thesis
      using ref dec g gd pos m unfolding l by blast
  qed
qed

text \<open>
  Claim C1. Whenever \<open>processSourceSwitch\<close> succeeds on a started forwarder, the timestamps
  were resolved, the decision rule gave a candidate, and the output timestamp \<open>extNextTS\<close>
  is that candidate after the guard: a candidate at or before \<open>extLastTS\<close> (as a signed
  64-bit difference) is replaced by \<open>extLastTS + 1\<close>. In every case \<open>extNextTS\<close> is
  strictly after \<open>extLastTS\<close> in that signed sense, and the delta handed to the RTP
  munger is \<open>extNextTS - extLastTS\<close>.
\<close>

theorem C1_source_switch_forward:
  assumes "started f" and "processSourceSwitch M clk f pkt layer = (None, f1)"
  shows "\<exists>extNextTS cand e r f0 f2.
           referenceTimestamps M clk (catchUp f layer) pkt layer
             = (Inr (ExtLastTS (GetLast M (rtpMunger f)), e, r), f0)
           \<and> decideNextTS f0 (ExtLastTS (GetLast M (rtpMunger f))) e r = (Inr cand, f2)
           \<and> extNextTS = guardNextTS (ExtLastTS (GetLast M (rtpMunger f))) cand
           \<and> (sint (cand - ExtLastTS (GetLast M (rtpMunger f))) \<le> 0 \<longrightarrow>
                extNextTS = ExtLastTS (GetLast M (rtpMunger f)) + 1)
           \<and> 0 < sint (extNextTS - ExtLastTS (GetLast M (rtpMunger f)))
           \<and> rtpMunger f1 =
               UpdateSnTsOffsets M pkt 1 (extNextTS - ExtLastTS (GetLast M (rtpMunger f)))
                 (rtpMunger f)"
  using assms by (rule source_switch_forward)

lemma midStream_simps:
  "started (midStream g l) = True" "lastSSRC (midStream g l) = 0x1111"
  "rtpMunger (midStream g l) = \<lparr>ExtLastSN = 500, ExtLastTS = l\<rparr>"
  "codecClockRate (midStream g l) = 90000"
  "getReferenceLayerRTPTimestamp (midStream g l) = g"
  "getExpectedRTPTimestamp (midStream g l) = None"
  "referenceLayerSpatial (midStream g l) = 0"
  "refTSOffset (midStream g l) = 0"
  "codecMunger (midStream g l) = ()"
  "resumeBehindThreshold (midStream g l) = 0"
  "IsDeficient (lastAllocation (midStream g l)) = False"
  by (simp_all add: midStream_def VideoAllocationDefault_def VideoAllocationZero_def)

lemma lastOnly_simps:
  "GetLast lastOnlyMungers m = m"
  "UpdateSnTsOffsets lastOnlyMungers pkt a b m = \<lparr>ExtLastSN = ExtLastSN m + a, ExtLastTS = ExtLastTS m + b\<rparr>"
  "CodecUpdateOffsets lastOnlyMungers pkt c = c"
  "UpdateAndGetSnTs lastOnlyMungers pkt mk m =
     (Inr \<lparr>snOrdering = SequenceNumberOrderingContiguous,
           extSequenceNumber = ExtLastSN m, extTimestamp = ExtLastTS m\<rparr>, m)"
  by (simp_all add: lastOnlyMungers_def)

lemma catchUp_midStream: "catchUp (midStream g l) layer = midStream g l"
  by (simp add: catchUp_def midStream_simps InvalidLayerSpatial_def)

lemma stitch_examples:
  "stitchRefTS 100000 100000 92800 = 92800"
  "stitchRefTS 100000 100000 99000 = 99000"
  "stitchRefTS 1000 1000 900 = 900"
  by (simp_all add: stitchRefTS_def Let_def)

lemma referenceTimestamps_midStream:
  "referenceTimestamps lastOnlyMungers noon (midStream (Some (\<lambda>ts l r. Inr ts)) 100000)
     (packetAt 92800) 1
   = (Inr (100000, 100000, 92800), midStream (Some (\<lambda>ts l r. Inr ts)) 100000)"
  "referenceTimestamps lastOnlyMungers noon (midStream (Some (\<lambda>ts l r. Inr ts)) 100000)
     (packetAt 99000) 1
   = (Inr (100000, 100000, 99000), midStream (Some (\<lambda>ts l r. Inr ts)) 100000)"
  by (simp_all add: referenceTimestamps_def midStream_simps lastOnly_simps packetAt_def
      stitch_examples Let_def)

lemma diff_examples:
  "diffSecondsOf (- 7200) 90000 = Finite (- 2 / 25)"
  "diffSecondsOf (- 1000) 90000 = Finite (- 1 / 90)"
  by (simp_all add: diffSecondsOf_def)

theorem C1_source_switch_forward_witness:
  "processSourceSwitch lastOnlyMungers noon
     ((midStream (Some (\<lambda>ts l r. Inr ts)) 1000)\<lparr>lastSSRC := 0\<rparr>) (packetAt 900) 1
   = (None, (midStream (Some (\<lambda>ts l r. Inr ts)) 1000)
              \<lparr>lastSSRC := 0, rtpMunger := \<lparr>ExtLastSN = 501, ExtLastTS = 1001\<rparr>\<rparr>)
   \<and> guardNextTS 1000 900 = 1001
   \<and> 0 < sint (guardNextTS 1000 900 - 1000)"
proof -
  let ?f = "(midStream (Some (\<lambda>ts l r. Inr ts)) 1000)\<lparr>lastSSRC := 0\<rparr>"
  have ref: "referenceTimestamps lastOnlyMungers noon (catchUp ?f 1) (packetAt 900) 1
               = (Inr (1000, 1000, 900), ?f)"
    by (simp add: referenceTimestamps_def catchUp_def midStream_simps lastOnly_simps packetAt_def
        stitch_examples Let_def InvalidLayerSpatial_def)
  have dec: "decideNextTS ?f 1000 1000 900 = (Inr 900, ?f)"
    by (simp add: decideNextTS_def diffSecondsOf_def midStream_simps Let_def
        ResumeBehindHighTresholdSeconds_def)
  have g: "guardNextTS 1000 900 = (1001 :: 64 word)"
    by (simp add: guardNextTS_def)
  have run: "processSourceSwitch lastOnlyMungers noon ?f (packetAt 900) 1
               = (None, ?f\<lparr>rtpMunger := \<lparr>ExtLastSN = 501, ExtLastTS = 1001\<rparr>\<rparr>)"
    by (simp add: processSourceSwitch_started midStream_simps switchTimestamps_def ref dec g
        lastOnly_simps)
  have st: "started ?f" by (simp add: midStream_simps)
  from C1_source_switch_forward [OF st run] ref dec
  have "0 < sint (guardNextTS 1000 900 - (1000 :: 64 word))"
    by (simp add: midStream_simps lastOnly_simps)
  with run g show ?thesis by simp
qed

subsection \<open>A layer switch whose reference is behind\<close>

lemma layer_switch_behind:
  assumes st: "started f" and ssrc: "lastSSRC f \<noteq> 0"
    and ref: "referenceTimestamps M clk (catchUp f layer) pkt layer
                = (Inr (extLastTS, extExpectedTS, extRefTS), f0)"
    and neg: "f_lt (diffSecondsOf (extRefTS - extLastTS) (codecClockRate f)) 0"
  shows "if f_gt (f_abs (diffSecondsOf (extRefTS - extLastTS) (codecClockRate f)))
              LayerSwitchBehindThresholdSeconds
         then processSourceSwitch M clk f pkt layer = (Some ErrSwitchPointTooFarBehind, f0)
              \<and> rtpMunger f0 = rtpMunger f \<and> lastSSRC f0 = lastSSRC f
              \<and> (lastSSRC f \<noteq> SSRC pkt \<longrightarrow>
                    getTranslationParamsCommon M clk f pkt layer tp
                      = ((None, tp\<lparr>shouldDrop := True\<rparr>), f0))
         else processSourceSwitch M clk f pkt layer
                = (None, f0\<lparr>rtpMunger := UpdateSnTsOffsets M pkt 1 1 (rtpMunger f),
                            codecMunger := CodecUpdateOffsets M pkt (codecMunger f)\<rparr>)"
proof -
  let ?d = "diffSecondsOf (extRefTS - extLastTS) (codecClockRate f)"
  note fr = referenceTimestamps_frame [OF ref, unfolded catchUp_frame]
  have s0: "lastSSRC f0 \<noteq> 0" "codecClockRate f0 = codecClockRate f"
    using fr ssrc by simp_all
  show ?thesis
  proof (cases "f_gt (f_abs ?d) LayerSwitchBehindThresholdSeconds")
    case True
    have dec: "decideNextTS f0 extLastTS extExpectedTS extRefTS
                 = (Inl ErrSwitchPointTooFarBehind, f0)"
      using s0 neg True by (simp add: decideNextTS_def Let_def)
    have sw: "switchTimestamps M clk (catchUp f layer) pkt layer
                = (Inl ErrSwitchPointTooFarBehind, f0)"
      by (simp add: switchTimestamps_def ref dec)
    have run: "processSourceSwitch M clk f pkt layer = (Some ErrSwitchPointTooFarBehind, f0)"
      using st by (simp add: processSourceSwitch_started sw)
    have "getTranslationParamsCommon M clk f pkt layer tp = ((None, tp\<lparr>shouldDrop := True\<rparr>), f0)"
      if "lastSSRC f \<noteq> SSRC pkt"
      using that by (simp add: getTranslationParamsCommon_def run)
    with run fr show ?thesis
      by (subst if_P [OF True]) simp
  next
    case False
    have dec: "decideNextTS f0 extLastTS extExpectedTS extRefTS = (Inr (extLastTS + 1), f0)"
      using s0 neg False by (simp add: decideNextTS_def Let_def)
    have g: "guardNextTS extLastTS (extLastTS + 1) = extLastTS + 1"
      by (simp add: guardNextTS_def)
    have sw: "switchTimestamps M clk (catchUp f layer) pkt layer
                = (Inr (extLastTS, extLastTS + 1), f0)"
      by (simp add: switchTimestamps_def ref dec g)
    have run: "processSourceSwitch M clk f pkt layer
                = (None, f0\<lparr>rtpMunger := UpdateSnTsOffsets M pkt 1 1 (rtpMunger f),
                            codecMunger := CodecUpdateOffsets M pkt (codecMunger f)\<rparr>)"
      using st fr by (simp add: processSourceSwitch_started sw)
    then show ?thesis
      by (subst if_not_P [OF False])
  qed
qed

text \<open>
  Claim C2. On a started forwarder in a layer switch (\<open>lastSSRC \<noteq> 0\<close>) whose timestamps
  resolve, let \<open>diff1\<close> be \<open>(extRefTS - extLastTS) / clockRate\<close> and let it be negative.
  If \<open>|diff1|\<close> exceeds 0.05 s, \<open>processSourceSwitch\<close> returns the error "switch point too
  far behind" with the RTP munger and \<open>lastSSRC\<close> as they were, and
  \<open>getTranslationParamsCommon\<close> (entered because the SSRC changed) marks the packet to be
  dropped and returns before it calls the munger. Otherwise the switch succeeds with
  \<open>extNextTS = extLastTS + 1\<close>: the munger gets the deltas 1 and 1.
\<close>

theorem C2_layer_switch_behind:
  assumes "started f" and "lastSSRC f \<noteq> 0"
    and "referenceTimestamps M clk (catchUp f layer) pkt layer
           = (Inr (extLastTS, extExpectedTS, extRefTS), f0)"
    and "f_lt (diffSecondsOf (extRefTS - extLastTS) (codecClockRate f)) 0"
  shows "if f_gt (f_abs (diffSecondsOf (extRefTS - extLastTS) (codecClockRate f)))
              LayerSwitchBehindThresholdSeconds
         then processSourceSwitch M clk f pkt layer = (Some ErrSwitchPointTooFarBehind, f0)
              \<and> rtpMunger f0 = rtpMunger f \<and> lastSSRC f0 = lastSSRC f
              \<and> (lastSSRC f \<noteq> SSRC pkt \<longrightarrow>
                    getTranslationParamsCommon M clk f pkt layer tp
                      = ((None, tp\<lparr>shouldDrop := True\<rparr>), f0))
         else processSourceSwitch M clk f pkt layer
                = (None, f0\<lparr>rtpMunger := UpdateSnTsOffsets M pkt 1 1 (rtpMunger f),
                            codecMunger := CodecUpdateOffsets M pkt (codecMunger f)\<rparr>)"
  using assms by (rule layer_switch_behind)

theorem C2_layer_switch_behind_witness:
  "getTranslationParamsCommon lastOnlyMungers noon (midStream (Some (\<lambda>ts l r. Inr ts)) 100000)
     (packetAt 92800) 1 TranslationParamsZero
   = ((None, TranslationParamsZero\<lparr>shouldDrop := True\<rparr>),
      midStream (Some (\<lambda>ts l r. Inr ts)) 100000)
   \<and> processSourceSwitch lastOnlyMungers noon (midStream (Some (\<lambda>ts l r. Inr ts)) 100000)
        (packetAt 92800) 1
     = (Some ErrSwitchPointTooFarBehind, midStream (Some (\<lambda>ts l r. Inr ts)) 100000)
   \<and> processSourceSwitch lastOnlyMungers noon (midStream (Some (\<lambda>ts l r. Inr ts)) 100000)
        (packetAt 99000) 1
     = (None, (midStream (Some (\<lambda>ts l r. Inr ts)) 100000)
                \<lparr>rtpMunger := \<lparr>ExtLastSN = 501, ExtLastTS = 100001\<rparr>\<rparr>)"
proof -
  let ?f = "midStream (Some (\<lambda>ts l r. Inr ts)) 100000"
  have st: "started ?f" and ssrc: "lastSSRC ?f \<noteq> 0"
    by (simp_all add: midStream_simps)
  have neg1: "f_lt (diffSecondsOf (92800 - 100000) (codecClockRate ?f)) 0"
    by (simp add: midStream_simps diff_examples)
  have neg2: "f_lt (diffSecondsOf (99000 - 100000) (codecClockRate ?f)) 0"
    by (simp add: midStream_simps diff_examples)
  have ref1: "referenceTimestamps lastOnlyMungers noon (catchUp ?f 1) (packetAt 92800) 1
                = (Inr (100000, 100000, 92800), ?f)"
    by (simp add: catchUp_midStream referenceTimestamps_midStream)
  have ref2: "referenceTimestamps lastOnlyMungers noon (catchUp ?f 1) (packetAt 99000) 1
                = (Inr (100000, 100000, 99000), ?f)"
    by (simp add: catchUp_midStream referenceTimestamps_midStream)
  note far = C2_layer_switch_behind [OF st ssrc ref1 neg1, of TranslationParamsZero]
  note near = C2_layer_switch_behind [OF st ssrc ref2 neg2, of TranslationParamsZero]
  from far near show ?thesis
    by (simp add: midStream_simps diff_examples LayerSwitchBehindThresholdSeconds_def
        lastOnly_simps packetAt_def)
qed

subsection \<open>A failed source switch on the video path\<close>

lemma processSourceSwitch_error_frame:
  assumes "processSourceSwitch M clk f pkt layer = (Some err, f1)"
  shows "vls f1 = vls f \<and> rtpMunger f1 = rtpMunger f \<and> lastSSRC f1 = lastSSRC f
         \<and> lastAllocation f1 = lastAllocation f"
proof (cases "started f")
  case False
  with assms show ?thesis by (simp add: processSourceSwitch_def)
next
  case True
  obtain res f2 where sw: "switchTimestamps M clk (catchUp f layer) pkt layer = (res, f2)"
    by (cases "switchTimestamps M clk (catchUp f layer) pkt layer")
  from assms True sw have "f1 = f2"
    by (cases res) (auto simp: processSourceSwitch_started split: prod.splits)
  with switchTimestamps_frame [OF sw] show ?thesis
    by (simp add: catchUp_frame)
qed

lemma video_switch_failure:
  assumes tv: "IsValid (targetLayer (vls f))"
    and sel: "Select V pkt layer (vls f) = (result, v1)"
    and selected: "IsSelected result"
    and nodown: "\<not> (IsDeficient (lastAllocation f)
                     \<and> Spatial (targetLayer v1) < Spatial (currentLayer v1))"
    and ssrc: "lastSSRC f \<noteq> SSRC pkt"
    and fail: "processSourceSwitch M clk (f\<lparr>vls := v1\<rparr>) pkt layer = (Some err, f1)"
  shows "\<exists>tp f2. getTranslationParamsVideo V M clk f pkt layer = ((None, tp), f2)
           \<and> shouldDrop tp
           \<and> vls f2 = (if IsSwitching result then Rollback V v1 else v1)
           \<and> rtpMunger f2 = rtpMunger f \<and> lastSSRC f2 = lastSSRC f"
proof -
  let ?tp1 = "TranslationParamsZero\<lparr>isResuming := IsResuming result,
                isSwitching := IsSwitching result,
                ddBytes := DependencyDescriptorExtension result,
                marker := RTPMarker result\<rparr>"
  note fr = processSourceSwitch_error_frame [OF fail]
  have common: "getTranslationParamsCommon M clk (f\<lparr>vls := v1\<rparr>) pkt layer ?tp1
                  = ((None, ?tp1\<lparr>shouldDrop := True\<rparr>), f1)"
    using ssrc by (simp add: getTranslationParamsCommon_def fail)
  have nd: "\<not> (FlagPauseOnDowngrade \<and> IsDeficient (lastAllocation (f\<lparr>vls := v1\<rparr>))
              \<and> Spatial (targetLayer (vls (f\<lparr>vls := v1\<rparr>)))
                  < Spatial (currentLayer (vls (f\<lparr>vls := v1\<rparr>))))"
    using nodown by simp
  have run: "getTranslationParamsVideo V M clk f pkt layer
               = ((None, ?tp1\<lparr>shouldDrop := True\<rparr>), maybeRollback V (IsSwitching result) f1)"
    unfolding getTranslationParamsVideo_def
    by (simp only: Let_def tv sel selected nd common split_conv if_True if_False simp_thms)
       simp
  show ?thesis
    using fr by (auto simp: run maybeRollback_def)
qed

text \<open>
  Claim C9, as amended. On the video path, let the target be valid, \<open>Select\<close> select the
  packet, the downgrade guard not apply, the SSRC have changed, and the source-switch
  reconciler fail. Then the packet is dropped with no error returned, the RTP munger and
  \<open>lastSSRC\<close> stay as they were, and the selector is rolled back exactly when \<open>Select\<close>
  reported a switch: it ends as \<open>Rollback\<close> of the state \<open>Select\<close> left, and as that
  state itself only when there was no switch.
\<close>

theorem C9_video_switch_failure:
  assumes "IsValid (targetLayer (vls f))"
    and "Select V pkt layer (vls f) = (result, v1)"
    and "IsSelected result"
    and "\<not> (IsDeficient (lastAllocation f)
             \<and> Spatial (targetLayer v1) < Spatial (currentLayer v1))"
    and "lastSSRC f \<noteq> SSRC pkt"
    and "processSourceSwitch M clk (f\<lparr>vls := v1\<rparr>) pkt layer = (Some err, f1)"
  shows "\<exists>tp f2. getTranslationParamsVideo V M clk f pkt layer = ((None, tp), f2)
           \<and> shouldDrop tp
           \<and> vls f2 = (if IsSwitching result then Rollback V v1 else v1)
           \<and> rtpMunger f2 = rtpMunger f \<and> lastSSRC f2 = lastSSRC f"
  using assms by (rule video_switch_failure)

lemma midStream_vls:
  "vls (midStream g l) =
     \<lparr>maxLayer = \<lparr>Spatial = 2, Temporal = 3\<rparr>, maxSeenLayer = \<lparr>Spatial = 2, Temporal = 3\<rparr>,
      currentLayer = \<lparr>Spatial = 0, Temporal = 3\<rparr>, targetLayer = \<lparr>Spatial = 1, Temporal = 3\<rparr>,
      requestSpatial = 1, overshootOkay = False, variant = InvalidLayer\<rparr>"
  by (simp add: midStream_def)

lemma switchingSelector_select:
  "Select switchingSelector pkt 1 (vls (midStream g l)) =
     (\<lparr>IsSelected = True, IsRelevant = True, IsResuming = False, IsSwitching = True,
       RTPMarker = False, DependencyDescriptorExtension = []\<rparr>,
      (vls (midStream g l))\<lparr>currentLayer := \<lparr>Spatial = 1, Temporal = 3\<rparr>,
                            variant := \<lparr>Spatial = 0, Temporal = 3\<rparr>\<rparr>)"
  by (simp add: switchingSelector_def midStream_vls IsValid_def)

lemma unresolved_switch:
  "processSourceSwitch lastOnlyMungers noon
     ((midStream (Some (\<lambda>ts l r. Inl (ErrCallback 0))) 100000)\<lparr>vls := v\<rparr>) (packetAt 92800) 1
   = (Some (ErrCallback 0), (midStream (Some (\<lambda>ts l r. Inl (ErrCallback 0))) 100000)\<lparr>vls := v\<rparr>)"
  by (simp add: processSourceSwitch_def switchTimestamps_def referenceTimestamps_def
      catchUp_def midStream_simps Let_def InvalidLayerSpatial_def)

theorem C9_video_switch_failure_witness:
  "\<exists>tp f2. getTranslationParamsVideo switchingSelector lastOnlyMungers noon
              (midStream (Some (\<lambda>ts l r. Inl (ErrCallback 0))) 100000) (packetAt 92800) 1
            = ((None, tp), f2)
     \<and> shouldDrop tp
     \<and> vls f2 = (vls (midStream (Some (\<lambda>ts l r. Inl (ErrCallback 0))) 100000))
                  \<lparr>variant := \<lparr>Spatial = 0, Temporal = 3\<rparr>\<rparr>
     \<and> rtpMunger f2 = \<lparr>ExtLastSN = 500, ExtLastTS = 100000\<rparr> \<and> lastSSRC f2 = 0x1111"
proof -
  let ?f = "midStream (Some (\<lambda>ts l r. Inl (ErrCallback 0))) 100000"
  have h1: "IsValid (targetLayer (vls ?f))" by (simp add: midStream_vls IsValid_def)
  have h3: "IsSelected \<lparr>IsSelected = True, IsRelevant = True, IsResuming = False,
              IsSwitching = True, RTPMarker = False, DependencyDescriptorExtension = []\<rparr>"
    by simp
  have h4: "\<not> (IsDeficient (lastAllocation ?f)
             \<and> Spatial (targetLayer ((vls ?f)\<lparr>currentLayer := \<lparr>Spatial = 1, Temporal = 3\<rparr>,
                            variant := \<lparr>Spatial = 0, Temporal = 3\<rparr>\<rparr>))
                 < Spatial (currentLayer ((vls ?f)\<lparr>currentLayer := \<lparr>Spatial = 1, Temporal = 3\<rparr>,
                            variant := \<lparr>Spatial = 0, Temporal = 3\<rparr>\<rparr>)))"
    by (simp add: midStream_simps)
  have h5: "lastSSRC ?f \<noteq> SSRC (packetAt 92800)"
    by (simp add: midStream_simps packetAt_def)
  from C9_video_switch_failure [OF h1 switchingSelector_select h3 h4 h5 unresolved_switch]
  show ?thesis
    by (simp add: switchingSelector_def midStream_simps midStream_vls)
qed

text \<open>
  The claim as stated keeps the selector as \<open>Select\<close> left it. Here the packet of spatial
  layer 1 makes the selector switch its current layer from \<open>(0, 3)\<close> to \<open>(1, 3)\<close>, the
  reference timestamp cannot be resolved, the packet is dropped, and the selector is
  back on \<open>(0, 3)\<close> afterwards.
\<close>

theorem C9_selector_kept_counterexample:
  "currentLayer (snd (Select switchingSelector (packetAt 92800) 1
       (vls (midStream (Some (\<lambda>ts l r. Inl (ErrCallback 0))) 100000))))
     = \<lparr>Spatial = 1, Temporal = 3\<rparr>
   \<and> shouldDrop (snd (fst (getTranslationParamsVideo switchingSelector lastOnlyMungers noon
        (midStream (Some (\<lambda>ts l r. Inl (ErrCallback 0))) 100000) (packetAt 92800) 1)))
   \<and> currentLayer (vls (snd (getTranslationParamsVideo switchingSelector lastOnlyMungers noon
        (midStream (Some (\<lambda>ts l r. Inl (ErrCallback 0))) 100000) (packetAt 92800) 1)))
     = \<lparr>Spatial = 0, Temporal = 3\<rparr>
   \<and> vls (snd (getTranslationParamsVideo switchingSelector lastOnlyMungers noon
        (midStream (Some (\<lambda>ts l r. Inl (ErrCallback 0))) 100000) (packetAt 92800) 1))
     \<noteq> snd (Select switchingSelector (packetAt 92800) 1
          (vls (midStream (Some (\<lambda>ts l r. Inl (ErrCallback 0))) 100000)))"
proof -
  let ?f = "midStream (Some (\<lambda>ts l r. Inl (ErrCallback 0))) 100000"
  let ?v1 = "(vls ?f)\<lparr>currentLayer := \<lparr>Spatial = 1, Temporal = 3\<rparr>,
                       variant := \<lparr>Spatial = 0, Temporal = 3\<rparr>\<rparr>"
  have h1: "IsValid (targetLayer (vls ?f))" by (simp add: midStream_vls IsValid_def)
  have h5: "lastSSRC ?f \<noteq> SSRC (packetAt 92800)"
    by (simp add: midStream_simps packetAt_def)
  have "\<exists>tp f2. getTranslationParamsVideo switchingSelector lastOnlyMungers noon ?f
                   (packetAt 92800) 1 = ((None, tp), f2)
           \<and> shouldDrop tp
           \<and> vls f2 = Rollback switchingSelector ?v1"
    using video_switch_failure [OF h1 switchingSelector_select _ _ h5 unresolved_switch]
    by (simp add: midStream_simps) blast
  then show ?thesis
    by (auto simp: switchingSelector_select) (simp_all add: switchingSelector_def midStream_vls)
qed

end
